theory Spec2Isabelle
  imports
    Complex_Main
    "HOL-Library.Sublist"
    "HOL-Library.Multiset"
    "HOL-Library.Product_Lexorder"
begin

section \<open>Python values used by the pipeline\<close>

text \<open>
  A Python \<open>str\<close> is a sequence of Unicode code points, so a string is a list of
  code points (\<open>nat\<close>). ASCII literals are written through \<open>ascii\<close>; the Korean
  literals of the source are given code point by code point, with an English gloss.
  Calls to \<open>print\<close> only write to standard output and are left out of the model.
\<close>

type_synonym ustr = "nat list"

definition ascii :: "string \<Rightarrow> ustr" where
  "ascii s = map of_char s"

text \<open>
  The JSON scalars that occur as metadata values: an integer (page numbers) or a string.
\<close>

datatype pyval = PyInt int | PyStr ustr

text \<open>\<open>str(n)\<close> for a non-negative integer: its decimal digits.\<close>

fun str_nat :: "nat \<Rightarrow> ustr" where
  "str_nat n = (if n < 10 then [48 + n] else str_nat (n div 10) @ [48 + n mod 10])"

declare str_nat.simps [simp del]

definition str_int :: "int \<Rightarrow> ustr" where
  "str_int i = (if i < 0 then 45 # str_nat (nat (- i)) else str_nat (nat i))"

text \<open>What an f-string writes for \<open>{v}\<close>: \<open>str(v)\<close>.\<close>

fun py_str :: "pyval \<Rightarrow> ustr" where
  "py_str (PyInt i) = str_int i"
| "py_str (PyStr s) = s"

text \<open>
  \<open>str(d.get(key))\<close> for a key that may be missing: a missing key gives \<open>None\<close>,
  printed as the text \<open>None\<close>.
\<close>

fun py_str_opt :: "pyval option \<Rightarrow> ustr" where
  "py_str_opt None = ascii ''None''"
| "py_str_opt (Some v) = py_str v"

text \<open>Python truthiness of a scalar, and of the result of \<open>d.get(key)\<close>.\<close>

fun truthy :: "pyval \<Rightarrow> bool" where
  "truthy (PyInt i) = (i \<noteq> 0)"
| "truthy (PyStr s) = (s \<noteq> [])"

fun get_truthy :: "pyval option \<Rightarrow> bool" where
  "get_truthy None = False"
| "get_truthy (Some v) = truthy v"

text \<open>
  \<open>xs[:n]\<close>: a non-negative stop keeps the first \<open>n\<close> elements; a negative stop counts
  from the end, so it drops the last \<open>-n\<close> elements.
\<close>

definition py_slice_to :: "'a list \<Rightarrow> int \<Rightarrow> 'a list" where
  "py_slice_to xs n =
     (if 0 \<le> n then take (nat n) xs else take (nat (int (length xs) + n)) xs)"

text \<open>\<open>s.split(sep)\<close> for a one-character separator; the result is never empty.\<close>

fun py_split :: "nat \<Rightarrow> ustr \<Rightarrow> ustr list" where
  "py_split sep [] = [[]]"
| "py_split sep (c # cs) =
     (if c = sep then [] # py_split sep cs
      else (case py_split sep cs of
              [] \<Rightarrow> [[c]]
            | w # ws \<Rightarrow> (c # w) # ws))"

text \<open>\<open>sep.join(parts)\<close>.\<close>

fun join :: "ustr \<Rightarrow> ustr list \<Rightarrow> ustr" where
  "join sep [] = []"
| "join sep [p] = p"
| "join sep (p # q # ps) = p @ sep @ join sep (q # ps)"

text \<open>
  \<open>s.strip()\<close>: removes leading and trailing whitespace, where whitespace is what
  \<open>str.isspace\<close> accepts.
\<close>

definition is_space :: "nat \<Rightarrow> bool" where
  "is_space c \<longleftrightarrow>
     (9 \<le> c \<and> c \<le> 13) \<or> (28 \<le> c \<and> c \<le> 32) \<or> c = 133 \<or> c = 160 \<or> c = 5760 \<or>
     (8192 \<le> c \<and> c \<le> 8202) \<or> c = 8232 \<or> c = 8233 \<or> c = 8239 \<or> c = 8287 \<or> c = 12288"

definition strip :: "ustr \<Rightarrow> ustr" where
  "strip s = rev (dropWhile is_space (rev (dropWhile is_space s)))"

section \<open>Search results\<close>

text \<open>
  A search result is a dictionary with the keys \<open>metadata\<close> and \<open>content\<close>, read with
  \<open>get\<close>; \<open>metadata\<close> is itself a dictionary. A missing key is \<open>None\<close>.
\<close>

record metadata =
  md_institution :: "ustr option"
  md_doc_type :: "ustr option"
  md_page :: "pyval option"
  md_table_id :: "pyval option"
  md_image_path :: "ustr option"

record search_result =
  sr_metadata :: "metadata option"
  sr_content :: "ustr option"

text \<open>The empty dictionary, the default of \<open>result.get("metadata", {})\<close>.\<close>

definition empty_metadata :: metadata where
  "empty_metadata =
     \<lparr>md_institution = None, md_doc_type = None, md_page = None,
      md_table_id = None, md_image_path = None\<rparr>"

definition get_metadata :: "search_result \<Rightarrow> metadata" where
  "get_metadata r = (case sr_metadata r of None \<Rightarrow> empty_metadata | Some md \<Rightarrow> md)"

definition get_content :: "search_result \<Rightarrow> ustr" where
  "get_content r = (case sr_content r of None \<Rightarrow> [] | Some c \<Rightarrow> c)"

section \<open>QASystem.build\_context (src/s7\_qa\_system\_light.py)\<close>

subsection \<open>String literals\<close>

text \<open>"No relevant information could be found." (17 code points).\<close>

definition no_info_sentinel :: ustr where
  "no_info_sentinel =
     [44288, 47144, 32, 51221, 48372, 47484, 32, 52286, 51012, 32, 49688, 32,
      50630, 49845, 45768, 45796, 46]"

text \<open>
  "The following is the related information retrieved from the 2024 KB real-estate
  report:" followed by a newline.
\<close>

definition context_header :: ustr where
  "context_header =
     [45796, 51020, 51008, 32, 50, 48, 50, 52, 32, 75, 66, 32, 48512, 46041, 49328, 32,
      47532, 54252, 53944, 50640, 49436, 32, 44160, 49353, 46108, 32, 44288, 47144, 32,
      51221, 48372, 51077, 45768, 45796, 58, 10]"

text \<open>The word "report", as a suffix with a leading blank.\<close>

definition report_suffix :: ustr where
  "report_suffix = [32, 47532, 54252, 53944]"

text \<open>The display names of the three known institutions.\<close>

definition institution_map :: "(ustr \<times> ustr) list" where
  "institution_map =
     [(ascii ''hd'', ascii ''HD '' @ [54788, 45824] @ report_suffix),
      (ascii ''kb'', ascii ''KB '' @ [48512, 46041, 49328] @ report_suffix),
      (ascii ''khi'', ascii ''KHI '' @ [51452, 53469, 44552, 50997] @ report_suffix)]"

text \<open>The labels "body text", "table" and "graph/image".\<close>

definition label_body :: ustr where
  "label_body = [48376, 47928]"

definition doc_type_map :: "(ustr \<times> ustr) list" where
  "doc_type_map =
     [(ascii ''text'', label_body),
      (ascii ''table'', [54364]),
      (ascii ''image'', [44536, 47000, 54532, 47, 51060, 48120, 51648])]"

text \<open>A newline and "table ID: "; a newline and "image: ".\<close>

definition table_id_prefix :: ustr where
  "table_id_prefix = [10, 54364] @ ascii '' ID: ''"

definition image_prefix :: ustr where
  "image_prefix = [10, 51060, 48120, 51648] @ ascii '': ''"

text \<open>The word "page".\<close>

definition page_word :: ustr where
  "page_word = [54168, 51060, 51648]"

text \<open>The separator part: eighty box-drawing dashes and a newline.\<close>

definition separator :: ustr where
  "separator = replicate 80 9472 @ [10]"

subsection \<open>The function\<close>

definition source_name :: "metadata \<Rightarrow> ustr" where
  "source_name md =
     (let institution = (case md_institution md of None \<Rightarrow> ascii ''unknown'' | Some s \<Rightarrow> s)
      in case map_of institution_map institution of
           Some n \<Rightarrow> n
         | None \<Rightarrow> institution @ report_suffix)"

definition doc_type_label :: "metadata \<Rightarrow> ustr" where
  "doc_type_label md =
     (case md_doc_type md of
        None \<Rightarrow> label_body
      | Some t \<Rightarrow> (case map_of doc_type_map t of Some l \<Rightarrow> l | None \<Rightarrow> label_body))"

definition page_text :: "metadata \<Rightarrow> ustr" where
  "page_text md = (case md_page md of None \<Rightarrow> ascii ''unknown'' | Some p \<Rightarrow> py_str p)"

text \<open>
  The file name of an image path: the part after the last backslash when the path has
  a backslash, otherwise the part after the last slash.
\<close>

definition image_filename :: "ustr \<Rightarrow> ustr" where
  "image_filename image_path =
     (if 92 \<in> set image_path then last (py_split 92 image_path)
      else last (py_split 47 image_path))"

text \<open>The \<open>if\<close>/\<open>elif\<close> that builds \<open>extra_info\<close>: the table id is tested first.\<close>

definition extra_info :: "metadata \<Rightarrow> ustr" where
  "extra_info md =
     (if get_truthy (md_table_id md) then table_id_prefix @ py_str_opt (md_table_id md)
      else (case md_image_path md of
              None \<Rightarrow> []
            | Some image_path \<Rightarrow>
                if image_path \<noteq> [] then image_prefix @ image_filename image_path else []))"

text \<open>The f-string \<open>formatted\<close> of one loop iteration, for index \<open>i\<close> and one result.\<close>

definition formatted :: "nat \<Rightarrow> search_result \<Rightarrow> ustr" where
  "formatted i result =
     (let md = get_metadata result;
          content = get_content result;
          source_name = source_name md;
          doc_type = doc_type_label md;
          page = page_text md;
          extra_info = extra_info md
      in [91, 52968, 53581, 49828, 53944, 32] @ str_nat i @
         [93, 10, 52636, 52376, 32, 44592, 44288, 58, 32] @ source_name @
         [10, 53440, 51077, 58, 32] @ doc_type @
         [10] @ page_word @ [58, 32] @ page @ page_word @ extra_info @
         [10, 10, 45236, 50857, 58, 10] @ content @
         [10, 10, 52636, 52376, 58, 32, 91] @ str_nat i @ [93, 32] @
         source_name @ [32] @ doc_type @ [32, 40] @ page @ page_word @ [41, 10])"

text \<open>
  The loop \<open>for i, result in enumerate(top_results, 1)\<close>: each iteration appends the
  formatted block and then the separator to \<open>context_parts\<close>.
\<close>

fun render_loop :: "ustr list \<Rightarrow> (nat \<times> search_result) list \<Rightarrow> ustr list" where
  "render_loop context_parts [] = context_parts"
| "render_loop context_parts ((i, result) # rest) =
     render_loop ((context_parts @ [formatted i result]) @ [separator]) rest"

definition top_results :: "search_result list \<Rightarrow> int \<Rightarrow> search_result list" where
  "top_results search_results max_chunks = py_slice_to search_results max_chunks"

definition context_parts :: "search_result list \<Rightarrow> int \<Rightarrow> ustr list" where
  "context_parts search_results max_chunks =
     render_loop [context_header] (List.enumerate 1 (top_results search_results max_chunks))"

text \<open>
  \<open>build_context\<close>. On values of these types no operation of the body can raise, so
  the result is a plain string.
\<close>

definition build_context :: "search_result list \<Rightarrow> int \<Rightarrow> ustr" where
  "build_context search_results max_chunks =
     (if search_results = [] then no_info_sentinel
      else join [10] (context_parts search_results max_chunks))"

subsection \<open>Example inputs\<close>

text \<open>
  Two search results used to evaluate the functions on concrete inputs: a table chunk
  whose metadata also carries an image path, and an image chunk.
\<close>

definition example_table_metadata :: metadata where
  "example_table_metadata =
     \<lparr>md_institution = Some (ascii ''kb''), md_doc_type = Some (ascii ''table''),
      md_page = Some (PyInt 12), md_table_id = Some (PyStr (ascii ''T1'')),
      md_image_path = Some (ascii ''img/a.png'')\<rparr>"

definition example_table_result :: search_result where
  "example_table_result =
     \<lparr>sr_metadata = Some example_table_metadata, sr_content = Some (ascii ''abc'')\<rparr>"

definition example_image_result :: search_result where
  "example_image_result =
     \<lparr>sr_metadata = Some
        \<lparr>md_institution = Some (ascii ''hd''), md_doc_type = Some (ascii ''image''),
         md_page = Some (PyInt 3), md_table_id = None,
         md_image_path = Some (ascii ''img/b.png'')\<rparr>,
      sr_content = Some (ascii ''xyz'')\<rparr>"

section \<open>QASystem: the calls to the language model (src/s7\_qa\_system\_light.py)\<close>

text \<open>
  The language model is an external collaborator. A call
  \<open>self.client.chat.completions.create(model, messages, temperature, max_tokens)\<close>
  followed by the reads of the response inside the same \<open>try\<close> block either raises an
  \<open>Exception\<close> or yields \<open>response.choices[0].message.content\<close>, which may be \<open>None\<close>.
  The client is a function from the request to that outcome. Temperatures are Python
  floats that are only passed through; they are written as rationals.
\<close>

datatype chat_outcome = ChatRaises | ChatReturns "ustr option"

record chat_request =
  req_model :: ustr
  req_messages :: "(ustr \<times> ustr) list"
  req_temperature :: rat
  req_max_tokens :: nat

record qa_system =
  qa_client :: "chat_request \<Rightarrow> chat_outcome"
  qa_model :: ustr
  qa_system_prompt :: ustr

subsection \<open>String literals\<close>

text \<open>
  The system prompt returned by \<open>_create_system_prompt\<close>: the analyst persona, five
  answering guidelines, the citation rules and an example answer with its source list
  (506 code points).
\<close>

definition system_prompt_text :: ustr where
  "system_prompt_text =
     [45817, 49888, 51008, 32, 75, 66, 44552, 50997, 51648, 51452, 32, 44221, 50689,
      50672, 44396, 49548, 51032, 32, 48512, 46041, 49328, 32, 51204, 47928, 32, 50528,
      45328, 47532, 49828, 53944, 51077, 45768, 45796, 46, 10, 50, 48, 50, 52, 32, 75, 66,
      32, 48512, 46041, 49328, 32, 48372, 44256, 49436, 47484, 32, 44592, 48152, 51004,
      47196, 32, 44148, 49444, 49324, 32, 49892, 47924, 51652, 50640, 44172, 32, 51221,
      54869, 54616, 44256, 32, 49892, 47924, 51201, 51064, 32, 51221, 48372, 47484, 32,
      51228, 44277, 54633, 45768, 45796, 46, 10, 10, 45813, 48320, 32, 44032, 51060,
      46300, 46972, 51064, 58, 10, 49, 46, 32, 51228, 44277, 46108, 32, 47532, 54252,
      53944, 32, 45236, 50857, 47564, 51012, 32, 44592, 48152, 51004, 47196, 32, 45813,
      48320, 54616, 49464, 50836, 46, 10, 50, 46, 32, 49688, 52824, 32, 45936, 51060,
      53552, 45716, 32, 51221, 54869, 54616, 44172, 32, 51064, 50857, 54616, 49464, 50836,
      46, 10, 51, 46, 32, 44033, 32, 47928, 51109, 51060, 45208, 32, 51221, 48372, 51032,
      32, 45149, 50640, 32, 48152, 46300, 49884, 32, 52636, 52376, 32, 48264, 54840,
      47484, 32, 91, 49, 93, 44, 32, 91, 50, 93, 32, 54805, 53468, 47196, 32, 54364,
      49884, 54616, 49464, 50836, 46, 10, 52, 46, 32, 47784, 47476, 45716, 32, 45236,
      50857, 51008, 32, 52628, 52769, 54616, 51648, 32, 47568, 44256, 32, 34, 47532,
      54252, 53944, 50640, 32, 54644, 45817, 32, 51221, 48372, 44032, 32, 50630, 49845,
      45768, 45796, 34, 46972, 44256, 32, 45813, 54616, 49464, 50836, 46, 10, 53, 46, 32,
      44148, 49444, 49324, 32, 49892, 47924, 51652, 51060, 32, 51060, 54644, 54616, 44592,
      32, 49789, 44172, 32, 44396, 51312, 54868, 46108, 32, 54805, 53468, 47196, 32,
      45813, 48320, 54616, 49464, 50836, 46, 10, 10, 52636, 52376, 32, 54364, 44592, 32,
      44508, 52825, 58, 10, 45, 32, 44033, 32, 47928, 51109, 32, 46244, 50640, 32, 91, 49,
      93, 44, 32, 91, 50, 93, 32, 54805, 53468, 47196, 32, 52636, 52376, 32, 48264, 54840,
      32, 54364, 44592, 10, 45, 32, 45813, 48320, 32, 45149, 50640, 32, 48152, 46300,
      49884, 32, 52636, 52376, 32, 47785, 47197, 32, 51089, 49457, 10, 10, 45813, 48320,
      32, 54805, 49885, 32, 50696, 49884, 58, 10, 50, 48, 50, 52, 45380, 32, 49436, 50872,
      32, 50500, 54028, 53944, 32, 47588, 47588, 44032, 44201, 51008, 32, 50, 46, 48, 37,
      32, 49345, 49849, 54664, 49845, 45768, 45796, 46, 32, 91, 49, 93, 10, 44053, 45224,
      44396, 45716, 32, 51204, 32, 44256, 51216, 51012, 32, 46028, 54028, 54664, 49845,
      45768, 45796, 46, 32, 91, 50, 93, 10, 10, 52636, 52376, 58, 10, 91, 49, 93, 32, 107,
      98, 95, 114, 101, 112, 111, 114, 116, 95, 50, 48, 50, 52, 46, 112, 100, 102, 32,
      54364, 8544, 45, 50, 46, 32, 51648, 50669, 48324, 32, 51452, 53469, 32, 47588,
      47588, 44032, 44201, 32, 48320, 46041, 47456, 32, 40, 49, 50, 54168, 51060, 51648,
      41, 10, 91, 50, 93, 32, 107, 98, 95, 114, 101, 112, 111, 114, 116, 95, 50, 48, 50,
      52, 46, 112, 100, 102, 32, 48376, 47928, 32, 40, 50, 53, 54168, 51060, 51648, 41, 10]"

text \<open>
  The rewriting prompt up to the query ("You are an expert in searching real-estate
  reports. Rewrite the user's question in a form optimised for search ..." with the four
  requirements, ending in "Original question: "), and after the query (two newlines and
  "Optimised question:").
\<close>

definition rewrite_prompt_head :: ustr where
  "rewrite_prompt_head =
     [45817, 49888, 51008, 32, 48512, 46041, 49328, 32, 47532, 54252, 53944, 32, 44160,
      49353, 32, 51204, 47928, 44032, 51077, 45768, 45796, 46, 10, 49324, 50857, 51088,
      32, 51656, 47928, 51012, 32, 44160, 49353, 50640, 32, 52572, 51201, 54868, 46108,
      32, 54805, 53468, 47196, 32, 45796, 49884, 32, 51089, 49457, 54644, 51452, 49464,
      50836, 46, 10, 10, 50836, 44396, 49324, 54637, 58, 10, 45, 32, 44396, 50612, 52404,
      47484, 32, 47928, 50612, 52404, 47196, 32, 48320, 54872, 10, 45, 32, 53412, 50892,
      46300, 47484, 32, 47749, 54869, 54616, 44172, 10, 45, 32, 44288, 47144, 32, 46041,
      51032, 50612, 32, 52628, 44032, 10, 45, 32, 44036, 44208, 54616, 44172, 32, 40, 49,
      45, 50, 47928, 51109, 41, 10, 10, 50896, 47000, 32, 51656, 47928, 58, 32]"

definition rewrite_prompt_tail :: ustr where
  "rewrite_prompt_tail =
     [10, 10, 52572, 51201, 54868, 46108, 32, 51656, 47928, 58]"

text \<open>The system message of the rewriting call: "You are an expert in optimising search queries."\<close>

definition rewrite_system_message :: ustr where
  "rewrite_system_message =
     [45817, 49888, 51008, 32, 44160, 49353, 32, 53244, 47532, 32, 52572, 51201, 54868,
      32, 51204, 47928, 44032, 51077, 45768, 45796, 46]"

text \<open>
  The user prompt of the answering call after the context (two newlines and
  "User question: ") and after the query ("Answer the user's question on the basis of
  the context above." and "State the source numbers [1], [2] and so on.").
\<close>

definition user_prompt_question :: ustr where
  "user_prompt_question =
     [10, 10, 49324, 50857, 51088, 32, 51656, 47928, 58, 32]"

definition user_prompt_tail :: ustr where
  "user_prompt_tail =
     [10, 10, 50948, 32, 52968, 53581, 49828, 53944, 47484, 32, 44592, 48152, 51004,
      47196, 32, 49324, 50857, 51088, 32, 51656, 47928, 50640, 32, 45813, 48320, 54644,
      51452, 49464, 50836, 46, 10, 52636, 52376, 32, 48264, 54840, 32, 91, 49, 93, 44, 32,
      91, 50, 93, 32, 46321, 51012, 32, 47749, 49884, 54616, 49464, 50836, 46]"

text \<open>The failure message: "Failed to generate an answer."\<close>

definition generation_failed :: ustr where
  "generation_failed =
     [45813, 48320, 32, 49373, 49457, 50640, 32, 49892, 54056, 54664, 49845, 45768, 45796,
      46]"

subsection \<open>The methods\<close>

text \<open>\<open>__init__\<close>: stores the client, the model name and the system prompt.\<close>

definition QASystem :: "(chat_request \<Rightarrow> chat_outcome) \<Rightarrow> ustr \<Rightarrow> qa_system" where
  "QASystem client model =
     \<lparr>qa_client = client, qa_model = model, qa_system_prompt = system_prompt_text\<rparr>"

definition rewrite_request :: "ustr \<Rightarrow> chat_request" where
  "rewrite_request query =
     \<lparr>req_model = ascii ''gpt-4o-mini'',
      req_messages =
        [(ascii ''system'', rewrite_system_message),
         (ascii ''user'', rewrite_prompt_head @ query @ rewrite_prompt_tail)],
      req_temperature = 3 / 10,
      req_max_tokens = 100\<rparr>"

text \<open>
  \<open>rewrite_query\<close>: the \<open>except Exception\<close> branch returns the original query. A
  response whose content is \<open>None\<close> makes \<open>.strip()\<close> raise inside the \<open>try\<close>, which
  ends in the same branch.
\<close>

definition rewrite_query :: "qa_system \<Rightarrow> ustr \<Rightarrow> ustr" where
  "rewrite_query self query =
     (case qa_client self (rewrite_request query) of
        ChatRaises \<Rightarrow> query
      | ChatReturns None \<Rightarrow> query
      | ChatReturns (Some content) \<Rightarrow> strip content)"

definition answer_request :: "qa_system \<Rightarrow> ustr \<Rightarrow> ustr \<Rightarrow> rat \<Rightarrow> nat \<Rightarrow> chat_request" where
  "answer_request self query context temperature max_tokens =
     \<lparr>req_model = qa_model self,
      req_messages =
        [(ascii ''system'', qa_system_prompt self),
         (ascii ''user'', context @ user_prompt_question @ query @ user_prompt_tail)],
      req_temperature = temperature,
      req_max_tokens = max_tokens\<rparr>"

text \<open>\<open>generate_answer\<close>: the answer text, or \<open>None\<close> when the call raised.\<close>

definition generate_answer :: "qa_system \<Rightarrow> ustr \<Rightarrow> ustr \<Rightarrow> rat \<Rightarrow> nat \<Rightarrow> ustr option" where
  "generate_answer self query context temperature max_tokens =
     (case qa_client self (answer_request self query context temperature max_tokens) of
        ChatRaises \<Rightarrow> None
      | ChatReturns answer \<Rightarrow> answer)"

text \<open>\<open>not answer\<close> for an optional string: \<open>None\<close> and the empty string are falsy.\<close>

fun falsy_answer :: "ustr option \<Rightarrow> bool" where
  "falsy_answer None = True"
| "falsy_answer (Some a) = (a = [])"

text \<open>
  \<open>answer_question\<close>: optional rewriting, context building with the default
  \<open>max_chunks = 5\<close>, answer generation with the defaults \<open>temperature = 0.3\<close> and
  \<open>max_tokens = 2000\<close>.
\<close>

definition answer_question :: "qa_system \<Rightarrow> ustr \<Rightarrow> search_result list \<Rightarrow> bool \<Rightarrow> ustr" where
  "answer_question self query search_results rewrite =
     (let query = (if rewrite then rewrite_query self query else query);
          context = build_context search_results 5;
          answer = generate_answer self query context (3 / 10) 2000
      in if falsy_answer answer then generation_failed
         else (case answer of Some a \<Rightarrow> a | None \<Rightarrow> generation_failed))"

text \<open>
  Two clients for concrete evaluation: one whose rewriting model fails while the
  answering model replies, and one for which every call fails.
\<close>

definition rewrite_down_client :: "chat_request \<Rightarrow> chat_outcome" where
  "rewrite_down_client req =
     (if req_model req = ascii ''gpt-4o-mini'' then ChatRaises
      else ChatReturns (Some (ascii ''ok [1]'')))"

definition all_down_client :: "chat_request \<Rightarrow> chat_outcome" where
  "all_down_client req = ChatRaises"

section \<open>The chat application (src/tmp.py)\<close>

text \<open>
  The application keeps its state in \<open>st.session_state\<close>. A message of the chat history
  is a dictionary with a role, a content and, for assistant messages, a reference list.
\<close>

datatype role = User | Assistant

record reference =
  ref_page :: pyval
  ref_text :: ustr
  ref_source :: ustr
  ref_institution :: ustr

record message =
  msg_role :: role
  msg_content :: ustr
  msg_references :: "reference list option"

text \<open>
  A call of a collaborator inside the \<open>try\<close> block of \<open>generate_response\<close> either raises
  an \<open>Exception\<close> \<open>e\<close>, kept as the text \<open>str(e)\<close>, or returns a value.
\<close>

datatype 'a outcome = Raised ustr | Returned 'a

text \<open>
  The two objects the application calls. The search engine (\<open>src.s6_search_engine\<close>) is
  not part of the sources at hand; its \<open>hybrid_search(query, top_k)\<close> is a parameter.
  The application calls \<open>generate_answer(query, context, temperature, use_history)\<close> on
  its QA object; this call is a parameter too, and \<open>build_context\<close> is the function of
  \<open>QASystem\<close> above.
\<close>

record search_engine =
  se_hybrid_search :: "ustr \<Rightarrow> int \<Rightarrow> search_result list outcome"

record qa_handle =
  qh_generate_answer :: "ustr \<Rightarrow> ustr \<Rightarrow> rat \<Rightarrow> bool \<Rightarrow> ustr option outcome"

record session_state =
  ss_messages :: "message list"
  ss_user_questions :: "ustr list"
  ss_qa_system :: "qa_handle option"
  ss_search_engine :: "search_engine option"

text \<open>
  The \<open>QASystem\<close> of src/s7\_qa\_system\_light.py seen through this interface: its
  \<open>generate_answer\<close> has no parameter \<open>use_history\<close>, so the call with that keyword
  raises a \<open>TypeError\<close> before the body runs. The text of the error is the
  interpreter's and is a parameter here.
\<close>

definition light_qa_handle :: "ustr \<Rightarrow> qa_handle" where
  "light_qa_handle type_error_text =
     \<lparr>qh_generate_answer = (\<lambda>query context temperature use_history. Raised type_error_text)\<rparr>"

subsection \<open>String literals\<close>

text \<open>
  The two warnings of \<open>generate_response\<close>: "The QA system is not initialised. Set
  OPENAI\_API\_KEY in the .env file." and "The vector DB is not loaded. Upload documents
  and create the vector DB first.", each after a warning sign.
\<close>

definition warning_no_qa_system :: ustr where
  "warning_no_qa_system =
     [9888, 65039, 32, 81, 65, 32, 49884, 49828, 53596, 51060, 32, 52488, 44592, 54868,
      46104, 51648, 32, 50506, 50520, 49845, 45768, 45796, 46, 32, 46, 101, 110, 118, 32,
      54028, 51068, 50640, 32, 79, 80, 69, 78, 65, 73, 95, 65, 80, 73, 95, 75, 69, 89,
      47484, 32, 49444, 51221, 54644, 51452, 49464, 50836, 46]"

definition warning_no_vector_db :: ustr where
  "warning_no_vector_db =
     [9888, 65039, 32, 48289, 53552, 32, 68, 66, 44032, 32, 47196, 46300, 46104, 51648,
      32, 50506, 50520, 49845, 45768, 45796, 46, 32, 47676, 51200, 32, 47928, 49436,
      47484, 32, 50629, 47196, 46300, 54616, 44256, 32, 48289, 53552, 32, 68, 66, 47484,
      32, 49373, 49457, 54644, 51452, 49464, 50836, 46]"

text \<open>"An error occurred: ".\<close>

definition error_prefix :: ustr where
  "error_prefix =
     [50724, 47448, 44032, 32, 48156, 49373, 54664, 49845, 45768, 45796, 58, 32]"

text \<open>The short institution names and the type labels of the reference list.\<close>

definition reference_institution_map :: "(ustr \<times> ustr) list" where
  "reference_institution_map =
     [(ascii ''hd'', ascii ''HD '' @ [54788, 45824]),
      (ascii ''kb'', ascii ''KB'' @ [44552, 50997]),
      (ascii ''khi'', ascii ''KHI '' @ [51452, 53469, 44552, 50997])]"

definition reference_doc_type_map :: "(ustr \<times> ustr) list" where
  "reference_doc_type_map =
     [(ascii ''text'', label_body),
      (ascii ''table'', [54364]),
      (ascii ''image'', [44536, 47000, 54532])]"

subsection \<open>generate\_response\<close>

text \<open>One entry of the reference list, built from one search result.\<close>

definition make_reference :: "search_result \<Rightarrow> reference" where
  "make_reference result =
     (let md = get_metadata result;
          content = get_content result;
          institution = (case md_institution md of None \<Rightarrow> ascii ''unknown'' | Some s \<Rightarrow> s);
          source_name = (case map_of reference_institution_map institution of
                           Some n \<Rightarrow> n | None \<Rightarrow> institution);
          doc_type = (case md_doc_type md of
                        None \<Rightarrow> label_body
                      | Some t \<Rightarrow> (case map_of reference_doc_type_map t of
                                    Some l \<Rightarrow> l | None \<Rightarrow> label_body))
      in \<lparr>ref_page = (case md_page md of None \<Rightarrow> PyStr (ascii ''N/A'') | Some p \<Rightarrow> p),
          ref_text = take 300 content,
          ref_source = source_name @ ascii '' - '' @ doc_type,
          ref_institution = source_name\<rparr>)"

text \<open>
  \<open>generate_response\<close> returns the pair of the response text and the reference list.
  Every exception raised inside its \<open>try\<close> block ends in the \<open>except\<close> branch.
\<close>

definition generate_response ::
  "session_state \<Rightarrow> ustr \<Rightarrow> rat \<Rightarrow> int \<Rightarrow> bool \<Rightarrow> ustr \<times> reference list" where
  "generate_response st query temperature top_k use_conversation =
     (case ss_qa_system st of
        None \<Rightarrow> (warning_no_qa_system, [])
      | Some qa_system \<Rightarrow>
          (case ss_search_engine st of
             None \<Rightarrow> (warning_no_vector_db, [])
           | Some search_engine \<Rightarrow>
               (case se_hybrid_search search_engine query top_k of
                  Raised e \<Rightarrow> (error_prefix @ e, [])
                | Returned search_results \<Rightarrow>
                    (let context = build_context search_results top_k
                     in case qh_generate_answer qa_system query context temperature
                               use_conversation of
                          Raised e \<Rightarrow> (error_prefix @ e, [])
                        | Returned answer \<Rightarrow>
                            if falsy_answer answer then (generation_failed, [])
                            else (case answer of
                                    None \<Rightarrow> (generation_failed, [])
                                  | Some a \<Rightarrow>
                                      (a, map make_reference
                                            (py_slice_to search_results top_k)))))))"

subsection \<open>The main script\<close>

text \<open>
  The block \<open>if user_input:\<close> of one run of the script: the question is recorded, the
  user message is appended, the response is generated and the assistant message is
  appended. \<open>user_input\<close> is \<open>None\<close> when nothing was entered.
\<close>

definition handle_user_input ::
  "session_state \<Rightarrow> ustr option \<Rightarrow> rat \<Rightarrow> int \<Rightarrow> bool \<Rightarrow> session_state" where
  "handle_user_input st user_input temperature top_k use_conversation =
     (case user_input of
        None \<Rightarrow> st
      | Some u \<Rightarrow>
          if u = [] then st
          else
            (let st1 = st\<lparr>ss_user_questions := ss_user_questions st @ [u]\<rparr>;
                 st2 = st1\<lparr>ss_messages := ss_messages st1 @
                         [\<lparr>msg_role = User, msg_content = u, msg_references = None\<rparr>]\<rparr>;
                 (bot_response, references) =
                    generate_response st2 u temperature top_k use_conversation
             in st2\<lparr>ss_messages := ss_messages st2 @
                  [\<lparr>msg_role = Assistant, msg_content = bot_response,
                    msg_references = Some references\<rparr>]\<rparr>))"

text \<open>Several runs of the script, one per input, with the same sidebar settings.\<close>

fun handle_user_inputs ::
  "session_state \<Rightarrow> ustr option list \<Rightarrow> rat \<Rightarrow> int \<Rightarrow> bool \<Rightarrow> session_state" where
  "handle_user_inputs st [] temperature top_k use_conversation = st"
| "handle_user_inputs st (u # us) temperature top_k use_conversation =
     handle_user_inputs (handle_user_input st u temperature top_k use_conversation) us
       temperature top_k use_conversation"

text \<open>
  The reset button: the history becomes the empty list. (The following call of
  \<open>clear_history\<close> concerns the QA object only.)
\<close>

definition reset_conversation :: "session_state \<Rightarrow> session_state" where
  "reset_conversation st = st\<lparr>ss_messages := []\<rparr>"

text \<open>The state at the start of a session without an API key and without an index.\<close>

definition initial_session :: session_state where
  "initial_session =
     \<lparr>ss_messages = [], ss_user_questions = [], ss_qa_system = None,
      ss_search_engine = None\<rparr>"

text \<open>
  The text of the \<open>TypeError\<close> that CPython (3.10 and later) raises for the call
  \<open>generate_answer(query, context, temperature=..., use_history=...)\<close> on the
  \<open>QASystem\<close> of src/s7\_qa\_system\_light.py.
\<close>

definition use_history_type_error :: ustr where
  "use_history_type_error =
     ascii ''QASystem.generate_answer() got an unexpected keyword argument '' @
     [39] @ ascii ''use_history'' @ [39]"

text \<open>
  A session of the application as it is wired in the sources: the QA object is the
  \<open>QASystem\<close> of src/s7\_qa\_system\_light.py, and the search engine returns one table
  chunk for every query.
\<close>

definition light_session :: session_state where
  "light_session =
     \<lparr>ss_messages = [], ss_user_questions = [],
      ss_qa_system = Some (light_qa_handle use_history_type_error),
      ss_search_engine = Some
        \<lparr>se_hybrid_search = (\<lambda>query top_k. Returned [example_table_result])\<rparr>\<rparr>"

section \<open>The chunking driver (src/s4\_chunking\_strategy.py)\<close>

text \<open>
  The driver reads the processed report of one institution and hands its records to a
  \<open>ChunkingStrategy\<close>. That class is not part of the sources at hand, so its constructor
  and its methods are parameters; each method call either raises or returns. The types
  of a table record, an image record and a chunk are left open.
\<close>

record text_record =
  tr_text :: "ustr option"
  tr_page_num :: "int option"

record text_block =
  tb_text :: ustr
  tb_page_num :: int

record ('table, 'image) processed_report =
  pr_institution :: "ustr option"
  pr_texts :: "text_record list option"
  pr_tables :: "'table list option"
  pr_images :: "'image list option"

record ('table, 'image, 'chunk) chunking_strategy =
  cs_chunk_pages :: "text_block list \<Rightarrow> ustr \<Rightarrow> 'chunk list outcome"
  cs_make_table_to_chunk :: "'table \<Rightarrow> 'chunk outcome"
  cs_make_image_to_chunk :: "'image \<Rightarrow> 'chunk outcome"
  cs_apply_overlap :: "'chunk list \<Rightarrow> 'chunk list outcome"
  cs_save_chunks :: "'chunk list \<Rightarrow> ustr list \<Rightarrow> unit outcome"

text \<open>\<open>d.get(key, [])\<close> for a list-valued key.\<close>

definition get_list :: "'a list option \<Rightarrow> 'a list" where
  "get_list v = (case v of None \<Rightarrow> [] | Some xs \<Rightarrow> xs)"

text \<open>The loop that turns every page record into a text block.\<close>

definition text_blocks_of :: "text_record list \<Rightarrow> text_block list" where
  "text_blocks_of texts =
     map (\<lambda>text_data.
            \<lparr>tb_text = (case tr_text text_data of None \<Rightarrow> [] | Some t \<Rightarrow> t),
             tb_page_num = (case tr_page_num text_data of None \<Rightarrow> 0 | Some n \<Rightarrow> n)\<rparr>)
         texts"

text \<open>
  The loop \<open>for table_data in tables\<close>: one call of \<open>make_table_to_chunk\<close> and one
  \<open>append\<close> per record; an exception of the call leaves the loop.
\<close>

fun table_loop :: "('table \<Rightarrow> 'chunk outcome) \<Rightarrow> 'chunk list \<Rightarrow> 'table list \<Rightarrow> 'chunk list outcome" where
  "table_loop make_table_to_chunk table_chunks [] = Returned table_chunks"
| "table_loop make_table_to_chunk table_chunks (table_data # rest) =
     (case make_table_to_chunk table_data of
        Raised e \<Rightarrow> Raised e
      | Returned table_chunk \<Rightarrow>
          table_loop make_table_to_chunk (table_chunks @ [table_chunk]) rest)"

text \<open>The loop \<open>for image_data in images\<close>, of the same shape.\<close>

fun image_loop :: "('image \<Rightarrow> 'chunk outcome) \<Rightarrow> 'chunk list \<Rightarrow> 'image list \<Rightarrow> 'chunk list outcome" where
  "image_loop make_image_to_chunk image_chunks [] = Returned image_chunks"
| "image_loop make_image_to_chunk image_chunks (image_data # rest) =
     (case make_image_to_chunk image_data of
        Raised e \<Rightarrow> Raised e
      | Returned image_chunk \<Rightarrow>
          image_loop make_image_to_chunk (image_chunks @ [image_chunk]) rest)"

text \<open>
  The output file, as the components of its path below the project root:
  \<open>data/processed/<institution>/<institution>_chunks.json\<close>.
\<close>

definition output_file :: "ustr \<Rightarrow> ustr list" where
  "output_file institution =
     [ascii ''data'', ascii ''processed'', institution, institution @ ascii ''_chunks.json'']"

text \<open>
  \<open>chunk_single_institution\<close>. The argument \<open>input_file\<close> is the parsed content of the
  processed report, or \<open>None\<close> when the file does not exist; then the function returns
  \<open>None\<close>. The chunker is built with chunk size 800, overlap 100 and model \<open>gpt-4\<close>.
\<close>

definition chunk_single_institution ::
  "(nat \<Rightarrow> nat \<Rightarrow> ustr \<Rightarrow> ('table, 'image, 'chunk) chunking_strategy) \<Rightarrow>
   ('table, 'image) processed_report option \<Rightarrow> ustr \<Rightarrow> 'chunk list option outcome" where
  "chunk_single_institution ChunkingStrategy input_file institution =
     (case input_file of
        None \<Rightarrow> Returned None
      | Some data \<Rightarrow>
          (let chunker = ChunkingStrategy 800 100 (ascii ''gpt-4'');
               institution_code =
                 (case pr_institution data of None \<Rightarrow> institution | Some c \<Rightarrow> c);
               texts = get_list (pr_texts data);
               tables = get_list (pr_tables data);
               images = get_list (pr_images data);
               text_blocks = text_blocks_of texts
           in case cs_chunk_pages chunker text_blocks institution_code of
                Raised e \<Rightarrow> Raised e
              | Returned text_chunks \<Rightarrow>
                  (case table_loop (cs_make_table_to_chunk chunker) [] tables of
                     Raised e \<Rightarrow> Raised e
                   | Returned table_chunks \<Rightarrow>
                       (case image_loop (cs_make_image_to_chunk chunker) [] images of
                          Raised e \<Rightarrow> Raised e
                        | Returned image_chunks \<Rightarrow>
                            (let all_chunks = text_chunks @ table_chunks @ image_chunks
                             in case cs_apply_overlap chunker all_chunks of
                                  Raised e \<Rightarrow> Raised e
                                | Returned final_chunks \<Rightarrow>
                                    (case cs_save_chunks chunker final_chunks
                                            (output_file institution) of
                                       Raised e \<Rightarrow> Raised e
                                     | Returned u \<Rightarrow> Returned (Some final_chunks)))))))"

text \<open>
  A chunker for concrete evaluation: tables and images are strings, a chunk is a tagged
  string, pages give no chunks and the overlap step returns its input.
\<close>

definition example_chunker :: "nat \<Rightarrow> nat \<Rightarrow> ustr \<Rightarrow> (ustr, ustr, ustr \<times> ustr) chunking_strategy" where
  "example_chunker chunk_size overlap model =
     \<lparr>cs_chunk_pages = (\<lambda>blocks code. Returned []),
      cs_make_table_to_chunk = (\<lambda>t. Returned (ascii ''table'', t)),
      cs_make_image_to_chunk = (\<lambda>i. Returned (ascii ''image'', i)),
      cs_apply_overlap = (\<lambda>chunks. Returned chunks),
      cs_save_chunks = (\<lambda>chunks path. Returned ())\<rparr>"

definition example_report :: "(ustr, ustr) processed_report" where
  "example_report =
     \<lparr>pr_institution = Some (ascii ''kb''), pr_texts = None,
      pr_tables = Some [ascii ''t1'', replicate 5000 120],
      pr_images = Some [ascii ''i1'']\<rparr>"

section \<open>The rank fuser and hybrid\_search\<close>

text \<open>
  The search engine (\<open>src.s6_search_engine\<close>) is called by src/tmp.py and by
  src/test\_full\_pipeline.py, but its code is not part of the sources at hand. The
  definitions of this section follow the specification of the rank fuser (section 4.5).
  Scores are exact rationals here; the program computes them in floating point.
\<close>

text \<open>
  Modelled from the spec: the \<open>RankedHit\<close> record \<open>{chunk_id, rank (1-based), raw_score}\<close>
  of the missing search engine. Chunk identifiers are any linearly ordered type.
\<close>

record 'id ranked_hit =
  rh_chunk_id :: 'id
  rh_rank :: nat
  rh_raw_score :: rat

text \<open>
  Modelled from the spec: the \<open>FusedResult\<close> of the missing search engine, reduced to
  the identifier of its chunk and its \<open>rrf_score\<close>.
\<close>

record 'id fused_result =
  fr_chunk_id :: 'id
  fr_rrf_score :: rat

text \<open>
  Modelled from the spec: \<open>rank_in_list(chunk)\<close> of the missing rank fuser, the rank of
  the hit of that chunk in one list, or nothing when the chunk is absent from the list.
\<close>

definition rank_in_list :: "'id ranked_hit list \<Rightarrow> 'id \<Rightarrow> nat option" where
  "rank_in_list hits c = map_option rh_rank (find (\<lambda>h. rh_chunk_id h = c) hits)"

text \<open>
  Modelled from the spec: the contribution of one list to the score of a chunk in the
  missing rank fuser, \<open>1 / (k + rank_in_list(chunk))\<close>, and \<open>0\<close> for an absent chunk.
\<close>

definition rrf_contribution :: "nat \<Rightarrow> 'id ranked_hit list \<Rightarrow> 'id \<Rightarrow> rat" where
  "rrf_contribution k hits c =
     (case rank_in_list hits c of
        None \<Rightarrow> 0
      | Some r \<Rightarrow> 1 / (of_nat k + of_nat r))"

text \<open>
  Modelled from the spec: \<open>rrf_score(chunk)\<close> of the missing rank fuser, the sum of the
  contributions over the named lists.
\<close>

definition rrf_score :: "nat \<Rightarrow> (string \<times> 'id ranked_hit list) list \<Rightarrow> 'id \<Rightarrow> rat" where
  "rrf_score k ranked_lists c =
     sum_list (map (\<lambda>(name, hits). rrf_contribution k hits c) ranked_lists)"

text \<open>
  Modelled from the spec: the distinct chunk identifiers that appear in at least one
  list given to the missing rank fuser.
\<close>

definition fused_chunk_ids :: "(string \<times> 'id ranked_hit list) list \<Rightarrow> 'id list" where
  "fused_chunk_ids ranked_lists =
     remdups (concat (map (\<lambda>(name, hits). map rh_chunk_id hits) ranked_lists))"

text \<open>
  Modelled from the spec: the output of the missing rank fuser, one \<open>FusedResult\<close> per
  distinct chunk, sorted by \<open>rrf_score\<close> descending and by \<open>chunk_id\<close> ascending on ties.
\<close>

definition rank_fuse ::
  "nat \<Rightarrow> (string \<times> ('id::linorder) ranked_hit list) list \<Rightarrow> 'id fused_result list" where
  "rank_fuse k ranked_lists =
     sort_key (\<lambda>f. (- fr_rrf_score f, fr_chunk_id f))
       (map (\<lambda>c. \<lparr>fr_chunk_id = c, fr_rrf_score = rrf_score k ranked_lists c\<rparr>)
          (fused_chunk_ids ranked_lists))"

text \<open>
  Modelled from the spec: \<open>hybrid_search(query, top_k)\<close> of the missing search engine,
  the first \<open>top_k\<close> fused results of the lexical and the semantic hit list of the query.
  The two sub-searches are parameters.
\<close>

definition hybrid_search ::
  "nat \<Rightarrow> ('q \<Rightarrow> ('id::linorder) ranked_hit list) \<Rightarrow> ('q \<Rightarrow> 'id ranked_hit list) \<Rightarrow>
   'q \<Rightarrow> nat \<Rightarrow> 'id fused_result list" where
  "hybrid_search k keyword_search vector_search query top_k =
     take top_k
       (rank_fuse k [(''lexical'', keyword_search query), (''semantic'', vector_search query)])"

text \<open>
  The order the specification asks of the output: a higher score first, and the smaller
  chunk identifier first among equal scores.
\<close>

definition fused_before :: "('id::linorder) fused_result \<Rightarrow> 'id fused_result \<Rightarrow> bool" where
  "fused_before a b \<longleftrightarrow>
     fr_rrf_score b < fr_rrf_score a \<or>
     (fr_rrf_score a = fr_rrf_score b \<and> fr_chunk_id a < fr_chunk_id b)"

text \<open>
  The example of the specification: lexical ranks \<open>A:1, B:2\<close> and semantic ranks
  \<open>B:1, C:2\<close>, with the chunks numbered \<open>A = 1\<close>, \<open>B = 2\<close>, \<open>C = 3\<close>.
\<close>

definition example_lexical :: "nat ranked_hit list" where
  "example_lexical =
     [\<lparr>rh_chunk_id = 1, rh_rank = 1, rh_raw_score = 5\<rparr>,
      \<lparr>rh_chunk_id = 2, rh_rank = 2, rh_raw_score = 3\<rparr>]"

definition example_semantic :: "nat ranked_hit list" where
  "example_semantic =
     [\<lparr>rh_chunk_id = 2, rh_rank = 1, rh_raw_score = 9 / 10\<rparr>,
      \<lparr>rh_chunk_id = 3, rh_rank = 2, rh_raw_score = 8 / 10\<rparr>]"

section \<open>Lemmas about the string helpers and the rendering loop\<close>

lemma py_split_nonempty: "py_split sep s \<noteq> []"
  by (induction s) (simp_all split: list.split)

lemma str_nat_small: "n < 10 \<Longrightarrow> str_nat n = [48 + n]"
  by (subst str_nat.simps) simp

lemma str_nat_large: "\<not> n < 10 \<Longrightarrow> str_nat n = str_nat (n div 10) @ [48 + n mod 10]"
  by (subst str_nat.simps) simp

lemma str_nat_nonempty: "str_nat n \<noteq> []"
  by (cases "n < 10") (simp_all add: str_nat_small str_nat_large)

lemma str_nat_inj: "str_nat n = str_nat m \<Longrightarrow> n = m"
proof (induction n arbitrary: m rule: str_nat.induct)
  case (1 n)
  show ?case
  proof (cases "n < 10")
    case nt: True
    show ?thesis
    proof (cases "m < 10")
      case True
      with nt "1.prems" show ?thesis
        by (simp add: str_nat_small)
    next
      case False
      from nt have "str_nat n = [48 + n]" by (rule str_nat_small)
      moreover from False have "str_nat m = str_nat (m div 10) @ [48 + m mod 10]"
        by (rule str_nat_large)
      ultimately have "str_nat (m div 10) = []"
        using "1.prems" by simp
      then show ?thesis
        by (simp add: str_nat_nonempty)
    qed
  next
    case nf: False
    then have en: "str_nat n = str_nat (n div 10) @ [48 + n mod 10]"
      by (rule str_nat_large)
    show ?thesis
    proof (cases "m < 10")
      case True
      then have "str_nat m = [48 + m]" by (rule str_nat_small)
      with en "1.prems" have "str_nat (n div 10) = []"
        by simp
      then show ?thesis
        by (simp add: str_nat_nonempty)
    next
      case mf: False
      then have "str_nat m = str_nat (m div 10) @ [48 + m mod 10]"
        by (rule str_nat_large)
      with en "1.prems"
      have a: "str_nat (n div 10) = str_nat (m div 10)" and b: "n mod 10 = m mod 10"
        by simp_all
      from "1.IH" [OF nf a] have "n div 10 = m div 10" .
      with b have "n div 10 * 10 + n mod 10 = m div 10 * 10 + m mod 10"
        by simp
      then show ?thesis
        by (simp only: div_mult_mod_eq)
    qed
  qed
qed

lemma render_loop_eq:
  "render_loop acc xs = acc @ concat (map (\<lambda>(i, r). [formatted i r, separator]) xs)"
  by (induction acc xs rule: render_loop.induct) simp_all

lemma enumerate_nth_form:
  "List.enumerate n ys = map (\<lambda>j. (n + j, ys ! j)) [0..<length ys]"
  by (rule nth_equalityI) (simp_all add: nth_enumerate_eq)

lemma length_py_slice_to:
  "length (py_slice_to xs n) =
     (if 0 \<le> n then min (length xs) (nat n) else nat (int (length xs) + n))"
  by (auto simp: py_slice_to_def)

lemma take_min_length: "take (min (length xs) k) xs = take k xs"
  by (cases "k \<le> length xs") (simp_all add: min_def)

lemma py_slice_to_take: "py_slice_to xs n = take (length (py_slice_to xs n)) xs"
  by (simp add: py_slice_to_def take_min_length)

lemma join_sublist: "p \<in> set ps \<Longrightarrow> sublist p (join sep ps)"
proof (induction sep ps rule: join.induct)
  case (1 sep)
  then show ?case by simp
next
  case (2 sep p')
  then show ?case by simp
next
  case (3 sep p' q ps)
  have eq: "join sep (p' # q # ps) = p' @ sep @ join sep (q # ps)"
    by simp
  show ?case
  proof (cases "p = p'")
    case True
    show ?thesis
      unfolding eq True by (rule sublist_append_rightI)
  next
    case False
    with "3.prems" have "p \<in> set (q # ps)" by simp
    then have "sublist p (join sep (q # ps))" by (rule "3.IH")
    moreover have "sublist (join sep (q # ps)) ((p' @ sep) @ join sep (q # ps))"
      by (rule sublist_append_leftI)
    ultimately have "sublist p ((p' @ sep) @ join sep (q # ps))"
      by (rule sublist_order.order_trans)
    then show ?thesis
      unfolding eq by simp
  qed
qed

lemma context_parts_eq:
  "context_parts rs mc =
     context_header #
     concat (map (\<lambda>j. [formatted (Suc j) (rs ! j), separator]) [0..<length (top_results rs mc)])"
proof -
  let ?N = "length (top_results rs mc)"
  have t: "top_results rs mc = take ?N rs"
    unfolding top_results_def by (rule py_slice_to_take)
  have "List.enumerate 1 (top_results rs mc) = map (\<lambda>j. (Suc j, rs ! j)) [0..<?N]"
  proof -
    have "List.enumerate 1 (top_results rs mc) =
            map (\<lambda>j. (1 + j, top_results rs mc ! j)) [0..<?N]"
      by (rule enumerate_nth_form)
    also have "\<dots> = map (\<lambda>j. (Suc j, rs ! j)) [0..<?N]"
    proof (rule map_cong [OF refl])
      fix j assume "j \<in> set [0..<?N]"
      then have "j < ?N" by simp
      then have "top_results rs mc ! j = rs ! j"
        by (subst t) simp
      then show "(1 + j, top_results rs mc ! j) = (Suc j, rs ! j)" by simp
    qed
    finally show ?thesis .
  qed
  then show ?thesis
    by (simp add: context_parts_def render_loop_eq comp_def)
qed

lemma formatted_layout:
  "formatted i result =
     [91, 52968, 53581, 49828, 53944, 32] @ str_nat i @
     [93, 10, 52636, 52376, 32, 44592, 44288, 58, 32] @ source_name (get_metadata result) @
     [10, 53440, 51077, 58, 32] @ doc_type_label (get_metadata result) @
     [10, 54168, 51060, 51648, 58, 32] @ page_text (get_metadata result) @
     [54168, 51060, 51648] @ extra_info (get_metadata result) @
     [10, 10, 45236, 50857, 58, 10] @ get_content result @
     [10, 10, 52636, 52376, 58, 32, 91] @ str_nat i @ [93, 32] @
     source_name (get_metadata result) @ [32] @ doc_type_label (get_metadata result) @
     [32, 40] @ page_text (get_metadata result) @ [54168, 51060, 51648, 41, 10]"
  by (simp add: formatted_def Let_def page_word_def)

lemma concat_pairs_nth:
  "j < n \<Longrightarrow> concat (map (\<lambda>j. [f j, g j]) [0..<n]) ! (2 * j) = f j"
proof (induction n)
  case 0
  then show ?case by simp
next
  case (Suc n)
  have len: "length (concat (map (\<lambda>j. [f j, g j]) [0..<n])) = 2 * n"
    by (induction n) simp_all
  show ?case
  proof (cases "j < n")
    case True
    with Suc.IH len show ?thesis
      by (simp add: nth_append)
  next
    case False
    with Suc.prems have "j = n" by simp
    with len show ?thesis
      by (simp add: nth_append)
  qed
qed

lemma length_concat_pairs: "length (concat (map (\<lambda>j. [f j, g j]) [0..<n])) = 2 * n"
  by (induction n) simp_all

lemma top_results_nth:
  assumes "j < length (top_results rs mc)"
  shows "top_results rs mc ! j = rs ! j"
proof -
  have "top_results rs mc = take (length (top_results rs mc)) rs"
    unfolding top_results_def by (rule py_slice_to_take)
  then have "top_results rs mc ! j = take (length (top_results rs mc)) rs ! j"
    by simp
  also from assms have "\<dots> = rs ! j" by simp
  finally show ?thesis .
qed

lemma top_results_nonempty:
  assumes "j < length (top_results rs mc)"
  shows "rs \<noteq> []"
  using assms by (auto simp: top_results_def py_slice_to_def split: if_splits)

lemma context_parts_block:
  assumes "j < length (top_results rs mc)"
  shows "context_parts rs mc ! Suc (2 * j) = formatted (Suc j) (top_results rs mc ! j)"
    and "Suc (2 * j) < length (context_parts rs mc)"
proof -
  from assms show "context_parts rs mc ! Suc (2 * j) = formatted (Suc j) (top_results rs mc ! j)"
    by (simp add: context_parts_eq concat_pairs_nth top_results_nth)
  from assms show "Suc (2 * j) < length (context_parts rs mc)"
    by (simp add: context_parts_eq length_concat_pairs)
qed

lemma block_in_build_context:
  assumes "j < length (top_results rs mc)"
  shows "sublist (formatted (Suc j) (top_results rs mc ! j)) (build_context rs mc)"
proof -
  from context_parts_block [OF assms]
  have "formatted (Suc j) (top_results rs mc ! j) \<in> set (context_parts rs mc)"
    by (metis nth_mem)
  then have "sublist (formatted (Suc j) (top_results rs mc ! j))
               (join [10] (context_parts rs mc))"
    by (rule join_sublist)
  with top_results_nonempty [OF assms] show ?thesis
    by (simp add: build_context_def)
qed

lemma sublist_of_block:
  assumes "j < length (top_results rs mc)"
    and "formatted (Suc j) (top_results rs mc ! j) = pre @ x @ post"
  shows "sublist x (build_context rs mc)"
proof -
  have "sublist x (formatted (Suc j) (top_results rs mc ! j))"
    unfolding assms(2) by (rule sublist_appendI)
  then show ?thesis
    using block_in_build_context [OF assms(1)] by (rule sublist_order.order_trans)
qed

section \<open>Properties of build\_context\<close>

text \<open>
  C4: for the empty search-result list, \<open>build_context\<close> returns the fixed sentinel
  "no relevant information could be found", which is not the empty string; the function
  returns before any other operation, so nothing can raise.
\<close>

theorem build_context_empty_sentinel:
  "build_context [] max_chunks = no_info_sentinel \<and> no_info_sentinel \<noteq> [] \<and>
   length no_info_sentinel = 17"
  by (simp add: build_context_def no_info_sentinel_def)

text \<open>
  C5: for a non-empty search-result list, the raw content of every rendered result
  (every element of \<open>search_results[:max_chunks]\<close>) occurs verbatim in the context that
  \<open>build_context\<close> returns: the whole value of the \<open>content\<close> field stands, unchanged,
  between the heading "content:" and the source line of a block.
\<close>

theorem build_context_content_verbatim:
  assumes "r \<in> set (top_results search_results max_chunks)"
    and "sr_content r = Some content"
  shows "search_results \<noteq> [] \<and>
         sublist ([10, 10, 45236, 50857, 58, 10] @ content @ [10, 10, 52636, 52376, 58, 32, 91])
           (build_context search_results max_chunks) \<and>
         sublist content (build_context search_results max_chunks)"
proof -
  from assms(1) obtain j where j: "j < length (top_results search_results max_chunks)"
    and r: "top_results search_results max_chunks ! j = r"
    by (auto simp: in_set_conv_nth)
  from assms(2) have c: "get_content r = content"
    by (simp add: get_content_def)
  let ?md = "get_metadata r"
  let ?pre = "[91, 52968, 53581, 49828, 53944, 32] @ str_nat (Suc j) @
     [93, 10, 52636, 52376, 32, 44592, 44288, 58, 32] @ source_name ?md @
     [10, 53440, 51077, 58, 32] @ doc_type_label ?md @
     [10, 54168, 51060, 51648, 58, 32] @ page_text ?md @
     [54168, 51060, 51648] @ extra_info ?md"
  let ?post = "str_nat (Suc j) @ [93, 32] @
     source_name ?md @ [32] @ doc_type_label ?md @
     [32, 40] @ page_text ?md @ [54168, 51060, 51648, 41, 10]"
  have f: "formatted (Suc j) (top_results search_results max_chunks ! j) =
        ?pre @ ([10, 10, 45236, 50857, 58, 10] @ content @ [10, 10, 52636, 52376, 58, 32, 91])
          @ ?post"
    unfolding r by (simp add: formatted_layout c)
  have 1: "sublist ([10, 10, 45236, 50857, 58, 10] @ content @ [10, 10, 52636, 52376, 58, 32, 91])
           (build_context search_results max_chunks)"
    using j f by (rule sublist_of_block)
  have "sublist content
          ([10, 10, 45236, 50857, 58, 10] @ content @ [10, 10, 52636, 52376, 58, 32, 91])"
    by (rule sublist_appendI)
  from this 1 have 2: "sublist content (build_context search_results max_chunks)"
    by (rule sublist_order.order_trans)
  from top_results_nonempty [OF j] 1 2 show ?thesis by simp
qed

theorem build_context_content_verbatim_witness:
  "sublist ([10, 10, 45236, 50857, 58, 10] @ ascii ''abc'' @ [10, 10, 52636, 52376, 58, 32, 91])
     (build_context [example_image_result, example_table_result] 5) \<and>
   sublist (ascii ''abc'') (build_context [example_image_result, example_table_result] 5)"
proof -
  have m: "example_table_result
             \<in> set (top_results [example_image_result, example_table_result] 5)"
    by (simp add: top_results_def py_slice_to_def)
  have c: "sr_content example_table_result = Some (ascii ''abc'')"
    by (simp add: example_table_result_def)
  from build_context_content_verbatim [OF m c] show ?thesis
    by (rule conjunct2)
qed

text \<open>
  C3: for a search-result list of length \<open>L\<close> and a number \<open>max_chunks\<close> of chunks (not
  negative), \<open>build_context\<close> renders exactly the first \<open>N = min L max_chunks\<close> results
  in their supplied order. The returned text is the header followed by \<open>N\<close> blocks, each
  with its separator; the block at position \<open>j\<close> (counted from 1) carries the index \<open>j\<close>
  in its label \<open>[... j]\<close> and in its source line \<open>[j]\<close>. So the labels and the
  citations \<open>1..N\<close> all occur in the text, there are exactly \<open>N\<close> blocks, and their
  indices are pairwise different. The text is a function of the list and \<open>max_chunks\<close>,
  so rendering again gives the same indices.
\<close>

theorem build_context_citation_indices:
  fixes search_results :: "search_result list" and max_chunks :: int
  assumes "0 \<le> max_chunks"
  defines "N \<equiv> min (length search_results) (nat max_chunks)"
  shows "top_results search_results max_chunks = take N search_results \<and>
         build_context search_results max_chunks =
           (if search_results = [] then no_info_sentinel
            else join [10] (context_header # concat (map
              (\<lambda>j. [[91, 52968, 53581, 49828, 53944, 32] @ str_nat (Suc j) @
                    [93, 10, 52636, 52376, 32, 44592, 44288, 58, 32] @
                    source_name (get_metadata (search_results ! j)) @
                    [10, 53440, 51077, 58, 32] @
                    doc_type_label (get_metadata (search_results ! j)) @
                    [10, 54168, 51060, 51648, 58, 32] @
                    page_text (get_metadata (search_results ! j)) @
                    [54168, 51060, 51648] @ extra_info (get_metadata (search_results ! j)) @
                    [10, 10, 45236, 50857, 58, 10] @ get_content (search_results ! j) @
                    [10, 10, 52636, 52376, 58, 32, 91] @ str_nat (Suc j) @ [93, 32] @
                    source_name (get_metadata (search_results ! j)) @ [32] @
                    doc_type_label (get_metadata (search_results ! j)) @ [32, 40] @
                    page_text (get_metadata (search_results ! j)) @
                    [54168, 51060, 51648, 41, 10],
                    separator])
              [0..<N]))) \<and>
         (\<forall>j<N.
            sublist ([91, 52968, 53581, 49828, 53944, 32] @ str_nat (Suc j) @ [93, 10])
              (build_context search_results max_chunks) \<and>
            sublist ([10, 10, 52636, 52376, 58, 32, 91] @ str_nat (Suc j) @ [93, 32])
              (build_context search_results max_chunks)) \<and>
         distinct (map str_nat [1..<Suc N])"
proof -
  have n: "length (top_results search_results max_chunks) = N"
    unfolding N_def top_results_def using assms(1) by (simp add: length_py_slice_to)
  have t: "top_results search_results max_chunks = take N search_results"
    using py_slice_to_take [of search_results max_chunks] n
    by (simp add: top_results_def)
  have p: "context_parts search_results max_chunks =
           context_header #
           concat (map (\<lambda>j. [formatted (Suc j) (search_results ! j), separator]) [0..<N])"
    using context_parts_eq [of search_results max_chunks] n by simp
  have b: "build_context search_results max_chunks =
           (if search_results = [] then no_info_sentinel
            else join [10] (context_header #
              concat (map (\<lambda>j. [formatted (Suc j) (search_results ! j), separator]) [0..<N])))"
    unfolding build_context_def p ..
  have s: "sublist ([91, 52968, 53581, 49828, 53944, 32] @ str_nat (Suc j) @ [93, 10])
              (build_context search_results max_chunks) \<and>
           sublist ([10, 10, 52636, 52376, 58, 32, 91] @ str_nat (Suc j) @ [93, 32])
              (build_context search_results max_chunks)" if "j < N" for j
  proof -
    from that n have j: "j < length (top_results search_results max_chunks)" by simp
    let ?r = "top_results search_results max_chunks ! j"
    let ?md = "get_metadata ?r"
    have "formatted (Suc j) ?r =
            [] @ ([91, 52968, 53581, 49828, 53944, 32] @ str_nat (Suc j) @ [93, 10]) @
            ([52636, 52376, 32, 44592, 44288, 58, 32] @ source_name ?md @
             [10, 53440, 51077, 58, 32] @ doc_type_label ?md @
             [10, 54168, 51060, 51648, 58, 32] @ page_text ?md @
             [54168, 51060, 51648] @ extra_info ?md @
             [10, 10, 45236, 50857, 58, 10] @ get_content ?r @
             [10, 10, 52636, 52376, 58, 32, 91] @ str_nat (Suc j) @ [93, 32] @
             source_name ?md @ [32] @ doc_type_label ?md @
             [32, 40] @ page_text ?md @ [54168, 51060, 51648, 41, 10])"
      by (simp add: formatted_layout)
    with j have 1: "sublist ([91, 52968, 53581, 49828, 53944, 32] @ str_nat (Suc j) @ [93, 10])
              (build_context search_results max_chunks)"
      by (rule sublist_of_block)
    have "formatted (Suc j) ?r =
            ([91, 52968, 53581, 49828, 53944, 32] @ str_nat (Suc j) @
             [93, 10, 52636, 52376, 32, 44592, 44288, 58, 32] @ source_name ?md @
             [10, 53440, 51077, 58, 32] @ doc_type_label ?md @
             [10, 54168, 51060, 51648, 58, 32] @ page_text ?md @
             [54168, 51060, 51648] @ extra_info ?md @
             [10, 10, 45236, 50857, 58, 10] @ get_content ?r) @
            ([10, 10, 52636, 52376, 58, 32, 91] @ str_nat (Suc j) @ [93, 32]) @
            (source_name ?md @ [32] @ doc_type_label ?md @
             [32, 40] @ page_text ?md @ [54168, 51060, 51648, 41, 10])"
      by (simp add: formatted_layout)
    with j have 2: "sublist ([10, 10, 52636, 52376, 58, 32, 91] @ str_nat (Suc j) @ [93, 32])
              (build_context search_results max_chunks)"
      by (rule sublist_of_block)
    from 1 2 show ?thesis ..
  qed
  have d: "distinct (map str_nat [1..<Suc N])"
    by (simp add: distinct_map inj_on_def str_nat_inj del: upt_Suc)
  from t b s d show ?thesis
    unfolding formatted_layout by blast
qed

theorem build_context_citation_indices_witness:
  "top_results [example_table_result, example_image_result, example_table_result] 2 =
     [example_table_result, example_image_result] \<and>
   sublist ([91, 52968, 53581, 49828, 53944, 32] @ str_nat 2 @ [93, 10])
     (build_context [example_table_result, example_image_result, example_table_result] 2) \<and>
   sublist ([10, 10, 52636, 52376, 58, 32, 91] @ str_nat 2 @ [93, 32])
     (build_context [example_table_result, example_image_result, example_table_result] 2)"
proof -
  have h: "(0::int) \<le> 2" by simp
  note th = build_context_citation_indices
    [where max_chunks = 2
       and search_results = "[example_table_result, example_image_result, example_table_result]",
     OF h]
  from th [THEN conjunct1]
  have 1: "top_results [example_table_result, example_image_result, example_table_result] 2 =
     [example_table_result, example_image_result]"
    by simp
  have k: "1 < min (length [example_table_result, example_image_result, example_table_result])
             (nat 2)"
    by simp
  note 2 = th [THEN conjunct2, THEN conjunct2, THEN conjunct1, rule_format, OF k,
    unfolded Suc_1]
  from 1 2 show ?thesis by (rule conjI)
qed
text \<open>
  C10: when the metadata of a rendered result has both a truthy \<open>table_id\<close> and a truthy
  \<open>image_path\<close>, the block that \<open>build_context\<close> writes for this result has the table-id
  line directly between the page line and the content heading and has no image line: it
  is the block of the same result without any \<open>image_path\<close>. The image line is written
  only when the \<open>table_id\<close> is missing.
\<close>

theorem build_context_table_id_precedence:
  fixes search_results :: "search_result list" and max_chunks :: int
  assumes "j < length (top_results search_results max_chunks)"
    and "top_results search_results max_chunks ! j = result"
    and "sr_metadata result = Some md"
    and "md_table_id md = Some table_id"
    and "truthy table_id"
    and "md_image_path md = Some image_path"
    and "image_path \<noteq> []"
  defines "block \<equiv>
     [91, 52968, 53581, 49828, 53944, 32] @ str_nat (Suc j) @
     [93, 10, 52636, 52376, 32, 44592, 44288, 58, 32] @ source_name md @
     [10, 53440, 51077, 58, 32] @ doc_type_label md @
     [10, 54168, 51060, 51648, 58, 32] @ page_text md @ [54168, 51060, 51648] @
     [10, 54364, 32, 73, 68, 58, 32] @ py_str table_id @
     [10, 10, 45236, 50857, 58, 10] @ get_content result @
     [10, 10, 52636, 52376, 58, 32, 91] @ str_nat (Suc j) @ [93, 32] @
     source_name md @ [32] @ doc_type_label md @ [32, 40] @ page_text md @
     [54168, 51060, 51648, 41, 10]"
  shows "context_parts search_results max_chunks ! Suc (2 * j) = block \<and>
         sublist block (build_context search_results max_chunks) \<and>
         formatted (Suc j) (result\<lparr>sr_metadata := Some (md\<lparr>md_image_path := None\<rparr>)\<rparr>) = block \<and>
         formatted (Suc j) (result\<lparr>sr_metadata := Some (md\<lparr>md_table_id := None\<rparr>)\<rparr>) =
           [91, 52968, 53581, 49828, 53944, 32] @ str_nat (Suc j) @
           [93, 10, 52636, 52376, 32, 44592, 44288, 58, 32] @ source_name md @
           [10, 53440, 51077, 58, 32] @ doc_type_label md @
           [10, 54168, 51060, 51648, 58, 32] @ page_text md @ [54168, 51060, 51648] @
           [10, 51060, 48120, 51648, 58, 32] @ image_filename image_path @
           [10, 10, 45236, 50857, 58, 10] @ get_content result @
           [10, 10, 52636, 52376, 58, 32, 91] @ str_nat (Suc j) @ [93, 32] @
           source_name md @ [32] @ doc_type_label md @ [32, 40] @ page_text md @
           [54168, 51060, 51648, 41, 10]"
proof -
  have e: "extra_info md = [10, 54364, 32, 73, 68, 58, 32] @ py_str table_id"
    using assms(4,5) by (simp add: extra_info_def table_id_prefix_def ascii_def)
  have f: "formatted (Suc j) result = block"
    unfolding block_def using assms(3) e
    by (simp add: formatted_layout get_metadata_def)
  from context_parts_block(1) [OF assms(1)] f
  have 1: "context_parts search_results max_chunks ! Suc (2 * j) = block"
    by (simp add: assms(2))
  from block_in_build_context [OF assms(1)] f
  have 2: "sublist block (build_context search_results max_chunks)"
    by (simp add: assms(2))
  have e': "extra_info (md\<lparr>md_image_path := None\<rparr>) = [10, 54364, 32, 73, 68, 58, 32] @ py_str table_id"
    using assms(4,5) by (simp add: extra_info_def table_id_prefix_def ascii_def)
  have 3: "formatted (Suc j) (result\<lparr>sr_metadata := Some (md\<lparr>md_image_path := None\<rparr>)\<rparr>) = block"
    unfolding block_def using e'
    by (simp add: formatted_layout get_metadata_def get_content_def source_name_def
        doc_type_label_def page_text_def)
  have e'': "extra_info (md\<lparr>md_table_id := None\<rparr>) =
               [10, 51060, 48120, 51648, 58, 32] @ image_filename image_path"
    using assms(6,7) by (simp add: extra_info_def image_prefix_def ascii_def)
  have 4: "formatted (Suc j) (result\<lparr>sr_metadata := Some (md\<lparr>md_table_id := None\<rparr>)\<rparr>) =
           [91, 52968, 53581, 49828, 53944, 32] @ str_nat (Suc j) @
           [93, 10, 52636, 52376, 32, 44592, 44288, 58, 32] @ source_name md @
           [10, 53440, 51077, 58, 32] @ doc_type_label md @
           [10, 54168, 51060, 51648, 58, 32] @ page_text md @ [54168, 51060, 51648] @
           [10, 51060, 48120, 51648, 58, 32] @ image_filename image_path @
           [10, 10, 45236, 50857, 58, 10] @ get_content result @
           [10, 10, 52636, 52376, 58, 32, 91] @ str_nat (Suc j) @ [93, 32] @
           source_name md @ [32] @ doc_type_label md @ [32, 40] @ page_text md @
           [54168, 51060, 51648, 41, 10]"
    using e''
    by (simp add: formatted_layout get_metadata_def get_content_def source_name_def
        doc_type_label_def page_text_def)
  from 1 2 3 4 show ?thesis by simp
qed

theorem build_context_table_id_precedence_witness:
  "sublist
     ([91, 52968, 53581, 49828, 53944, 32] @ str_nat 2 @
      [93, 10, 52636, 52376, 32, 44592, 44288, 58, 32] @ source_name example_table_metadata @
      [10, 53440, 51077, 58, 32] @ doc_type_label example_table_metadata @
      [10, 54168, 51060, 51648, 58, 32] @ page_text example_table_metadata @
      [54168, 51060, 51648] @
      [10, 54364, 32, 73, 68, 58, 32] @ ascii ''T1'' @
      [10, 10, 45236, 50857, 58, 10] @ ascii ''abc'' @
      [10, 10, 52636, 52376, 58, 32, 91] @ str_nat 2 @ [93, 32] @
      source_name example_table_metadata @ [32] @ doc_type_label example_table_metadata @
      [32, 40] @ page_text example_table_metadata @ [54168, 51060, 51648, 41, 10])
     (build_context [example_image_result, example_table_result] 5)"
proof -
  have 1: "1 < length (top_results [example_image_result, example_table_result] 5)"
    and 2: "top_results [example_image_result, example_table_result] 5 ! 1 = example_table_result"
    by (simp_all add: top_results_def py_slice_to_def)
  have 3: "sr_metadata example_table_result = Some example_table_metadata"
    by (simp add: example_table_result_def)
  have 4: "md_table_id example_table_metadata = Some (PyStr (ascii ''T1''))"
    and 6: "md_image_path example_table_metadata = Some (ascii ''img/a.png'')"
    by (simp_all add: example_table_metadata_def)
  have 5: "truthy (PyStr (ascii ''T1''))" and 7: "ascii ''img/a.png'' \<noteq> []"
    by (simp_all add: ascii_def)
  have c: "get_content example_table_result = ascii ''abc''"
    by (simp add: get_content_def example_table_result_def)
  note th = build_context_table_id_precedence [OF 1 2 3 4 5 6 7,
    THEN conjunct2, THEN conjunct1, unfolded Suc_1 py_str.simps c]
  show ?thesis by (rule th)
qed

section \<open>Properties of the question-answering pipeline\<close>

text \<open>
  C8: when the language-model call inside \<open>rewrite_query\<close> raises, \<open>rewrite_query\<close>
  returns the original query unchanged, and \<open>answer_question\<close> goes on exactly as it does
  without rewriting: the context is built and the answer is generated from the original
  query, and the result is that answer (or the failure message when the generation itself
  yields nothing).
\<close>

theorem rewrite_failure_keeps_pipeline:
  assumes "qa_client self (rewrite_request query) = ChatRaises"
  shows "rewrite_query self query = query \<and>
         answer_question self query search_results True =
           answer_question self query search_results False \<and>
         answer_question self query search_results True =
           (case generate_answer self query (build_context search_results 5) (3 / 10) 2000 of
              None \<Rightarrow> generation_failed
            | Some a \<Rightarrow> if a = [] then generation_failed else a)"
proof -
  from assms have r: "rewrite_query self query = query"
    by (simp add: rewrite_query_def)
  have g: "answer_question self query search_results False =
           (case generate_answer self query (build_context search_results 5) (3 / 10) 2000 of
              None \<Rightarrow> generation_failed
            | Some a \<Rightarrow> if a = [] then generation_failed else a)"
    by (simp add: answer_question_def Let_def split: option.split)
  have "answer_question self query search_results True =
        answer_question self query search_results False"
    by (simp add: answer_question_def r)
  with r g show ?thesis by simp
qed

theorem rewrite_failure_keeps_pipeline_witness:
  "rewrite_query (QASystem rewrite_down_client (ascii ''gpt-4o'')) (ascii ''price?'')
     = ascii ''price?'' \<and>
   answer_question (QASystem rewrite_down_client (ascii ''gpt-4o'')) (ascii ''price?'')
     [example_table_result] True = ascii ''ok [1]''"
proof -
  have c: "qa_client (QASystem rewrite_down_client (ascii ''gpt-4o''))
             (rewrite_request (ascii ''price?'')) = ChatRaises"
    by (simp add: QASystem_def rewrite_down_client_def rewrite_request_def)
  have g: "generate_answer (QASystem rewrite_down_client (ascii ''gpt-4o'')) (ascii ''price?'')
             (build_context [example_table_result] 5) (3 / 10) 2000 = Some (ascii ''ok [1]'')"
    by (simp add: generate_answer_def QASystem_def rewrite_down_client_def answer_request_def
        ascii_def)
  have n: "ascii ''ok [1]'' \<noteq> []"
    by (simp add: ascii_def)
  note pipeline = rewrite_failure_keeps_pipeline [OF c, of "[example_table_result]"]
  from pipeline
  have "rewrite_query (QASystem rewrite_down_client (ascii ''gpt-4o'')) (ascii ''price?'')
          = ascii ''price?''"
    by (rule conjunct1)
  moreover from pipeline [THEN conjunct2, THEN conjunct2]
  have "answer_question (QASystem rewrite_down_client (ascii ''gpt-4o'')) (ascii ''price?'')
          [example_table_result] True = ascii ''ok [1]''"
    using g n by simp
  ultimately show ?thesis by (rule conjI)
qed

section \<open>Properties of the chat history\<close>

lemma handle_user_input_messages:
  "ss_messages (handle_user_input st user_input temperature top_k use_conversation) =
     (case user_input of
        None \<Rightarrow> ss_messages st
      | Some u \<Rightarrow>
          if u = [] then ss_messages st
          else ss_messages st @
            [\<lparr>msg_role = User, msg_content = u, msg_references = None\<rparr>,
             \<lparr>msg_role = Assistant,
              msg_content = fst (generate_response st u temperature top_k use_conversation),
              msg_references =
                Some (snd (generate_response st u temperature top_k use_conversation))\<rparr>])"
proof -
  have g: "generate_response (st\<lparr>ss_user_questions := q, ss_messages := m\<rparr>) u temperature
             top_k use_conversation =
           generate_response st u temperature top_k use_conversation" for q m u
    by (simp add: generate_response_def cong: option.case_cong)
  show ?thesis
    by (simp add: handle_user_input_def Let_def g split_beta split: option.split)
qed


lemma handle_user_inputs_messages:
  "prefix (ss_messages st)
     (ss_messages (handle_user_inputs st us temperature top_k use_conversation)) \<and>
   length (ss_messages (handle_user_inputs st us temperature top_k use_conversation)) =
     length (ss_messages st) + 2 * length (filter (\<lambda>u. u \<noteq> None \<and> u \<noteq> Some []) us)"
proof (induction us arbitrary: st)
  case Nil
  show ?case by simp
next
  case (Cons u us)
  let ?st = "handle_user_input st u temperature top_k use_conversation"
  have p: "prefix (ss_messages st) (ss_messages ?st)"
    by (simp add: handle_user_input_messages split: option.split)
  have l: "length (ss_messages ?st) =
           length (ss_messages st) + (if u \<noteq> None \<and> u \<noteq> Some [] then 2 else 0)"
    by (simp add: handle_user_input_messages split: option.split)
  from Cons.IH [of ?st]
  have ih1: "prefix (ss_messages ?st)
               (ss_messages (handle_user_inputs ?st us temperature top_k use_conversation))"
    and ih2: "length (ss_messages (handle_user_inputs ?st us temperature top_k use_conversation))
               = length (ss_messages ?st) +
                 2 * length (filter (\<lambda>u. u \<noteq> None \<and> u \<noteq> Some []) us)"
    by simp_all
  from p ih1 have "prefix (ss_messages st)
      (ss_messages (handle_user_inputs ?st us temperature top_k use_conversation))"
    by (rule prefix_order.order_trans)
  moreover from ih2 l
  have "length (ss_messages (handle_user_inputs ?st us temperature top_k use_conversation)) =
        length (ss_messages st) +
          2 * length (filter (\<lambda>u. u \<noteq> None \<and> u \<noteq> Some []) (u # us))"
    by simp
  ultimately show ?case by simp
qed

text \<open>
  C6, as stated, fails: the history has no window. Starting from the empty history, two
  questions append four turns and all four remain, the oldest one first; with a window
  of three turns the first would have been evicted.
\<close>

theorem history_window_counterexample:
  "ss_messages
     (handle_user_inputs initial_session [Some (ascii ''a''), Some (ascii ''b'')] (3 / 10) 5 True)
   = [\<lparr>msg_role = User, msg_content = ascii ''a'', msg_references = None\<rparr>,
      \<lparr>msg_role = Assistant, msg_content = warning_no_qa_system, msg_references = Some []\<rparr>,
      \<lparr>msg_role = User, msg_content = ascii ''b'', msg_references = None\<rparr>,
      \<lparr>msg_role = Assistant, msg_content = warning_no_qa_system, msg_references = Some []\<rparr>] \<and>
   length (ss_messages
     (handle_user_inputs initial_session [Some (ascii ''a''), Some (ascii ''b'')] (3 / 10) 5 True))
   \<noteq> 3"
  by (simp add: handle_user_input_def generate_response_def initial_session_def ascii_def)

text \<open>
  C6 (amended): the conversation history is unbounded and nothing is evicted. Every
  non-empty user input appends exactly two turns (the user turn, then the assistant
  turn) at the end; all earlier turns stay in place, so the old history is a prefix of
  the new one and the length grows by two per non-empty input. Only the reset button
  empties the history.
\<close>

theorem history_is_unbounded:
  "prefix (ss_messages st)
     (ss_messages (handle_user_inputs st us temperature top_k use_conversation)) \<and>
   length (ss_messages (handle_user_inputs st us temperature top_k use_conversation)) =
     length (ss_messages st) + 2 * length (filter (\<lambda>u. u \<noteq> None \<and> u \<noteq> Some []) us) \<and>
   ss_messages (handle_user_input st (Some (c # cs)) temperature top_k use_conversation) =
     ss_messages st @
       [\<lparr>msg_role = User, msg_content = c # cs, msg_references = None\<rparr>,
        \<lparr>msg_role = Assistant,
         msg_content = fst (generate_response st (c # cs) temperature top_k use_conversation),
         msg_references =
           Some (snd (generate_response st (c # cs) temperature top_k use_conversation))\<rparr>] \<and>
   ss_messages (reset_conversation st) = []"
  using handle_user_inputs_messages [of st us temperature top_k use_conversation]
  by (simp add: handle_user_input_messages reset_conversation_def)

theorem history_is_unbounded_witness:
  "length (ss_messages
     (handle_user_inputs light_session
        [Some (ascii ''a''), None, Some [], Some (ascii ''b''), Some (ascii ''c'')]
        (3 / 10) 5 True)) = 6"
  using history_is_unbounded
    [of light_session "[Some (ascii ''a''), None, Some [], Some (ascii ''b''), Some (ascii ''c'')]"
        "3 / 10" 5 True]
  by (simp add: light_session_def ascii_def)

lemma generate_response_raised:
  assumes "ss_qa_system st = Some qa" and "ss_search_engine st = Some se"
    and "se_hybrid_search se u top_k = Returned rs"
    and "qh_generate_answer qa u (build_context rs top_k) temperature use_conversation = Raised e"
  shows "generate_response st u temperature top_k use_conversation = (error_prefix @ e, [])"
  using assms by (simp add: generate_response_def)

lemma generate_response_light:
  assumes "ss_qa_system st = Some (light_qa_handle type_error_text)"
    and "ss_search_engine st = Some se"
    and "se_hybrid_search se u top_k = Returned rs"
  shows "generate_response st u temperature top_k use_conversation =
           (error_prefix @ type_error_text, [])"
  using assms by (simp add: generate_response_def light_qa_handle_def)

lemma generate_response_no_answer:
  assumes "ss_qa_system st = Some qa" and "ss_search_engine st = Some se"
    and "se_hybrid_search se u top_k = Returned rs"
    and "qh_generate_answer qa u (build_context rs top_k) temperature use_conversation
           = Returned answer"
    and "falsy_answer answer"
  shows "generate_response st u temperature top_k use_conversation = (generation_failed, [])"
  using assms by (simp add: generate_response_def)

text \<open>
  C7, as stated, fails in its last part: when the answer-generation call fails, the
  main script still appends an assistant turn, whose content is the failure text. In
  the application as it is wired, the call \<open>generate_answer(..., use_history=...)\<close>
  raises, \<open>generate_response\<close> returns the error text, and the history holds the user
  turn and an assistant turn with that text.
\<close>

theorem failed_answer_turn_counterexample:
  "ss_messages (handle_user_input light_session (Some (ascii ''q'')) (3 / 10) 5 True)
   = [\<lparr>msg_role = User, msg_content = ascii ''q'', msg_references = None\<rparr>,
      \<lparr>msg_role = Assistant, msg_content = error_prefix @ use_history_type_error,
       msg_references = Some []\<rparr>]"
  by (simp add: handle_user_input_def generate_response_def light_session_def
      light_qa_handle_def ascii_def)

text \<open>
  C7 (amended): when the answer-generation call fails by raising, the answer text is
  withheld and the caller receives a failure message. In \<open>QASystem\<close> the failing
  language-model call makes \<open>generate_answer\<close> return \<open>None\<close> and \<open>answer_question\<close>
  return the fixed message "Failed to generate an answer.". In the chat application the
  failing call makes \<open>generate_response\<close> return "An error occurred: " followed by the
  error text, with an empty reference list. The chat history is still extended: the main
  script appends the user turn and then an assistant turn that carries this failure text
  and an empty reference list.
\<close>

theorem generation_failure_message_and_history:
  assumes "qa_client self
             (answer_request self (if rewrite then rewrite_query self query else query)
                (build_context search_results 5) (3 / 10) 2000) = ChatRaises"
    and "ss_qa_system st = Some qa" and "ss_search_engine st = Some se"
    and "se_hybrid_search se u top_k = Returned rs"
    and "qh_generate_answer qa u (build_context rs top_k) temperature use_conversation = Raised e"
    and "u \<noteq> []"
  shows "generate_answer self (if rewrite then rewrite_query self query else query)
           (build_context search_results 5) (3 / 10) 2000 = None \<and>
         answer_question self query search_results rewrite =
           [45813, 48320, 32, 49373, 49457, 50640, 32, 49892, 54056, 54664, 49845, 45768,
            45796, 46] \<and>
         generate_response st u temperature top_k use_conversation =
           ([50724, 47448, 44032, 32, 48156, 49373, 54664, 49845, 45768, 45796, 58, 32] @ e,
            []) \<and>
         ss_messages (handle_user_input st (Some u) temperature top_k use_conversation) =
           ss_messages st @
             [\<lparr>msg_role = User, msg_content = u, msg_references = None\<rparr>,
              \<lparr>msg_role = Assistant,
               msg_content =
                 [50724, 47448, 44032, 32, 48156, 49373, 54664, 49845, 45768, 45796, 58, 32]
                 @ e,
               msg_references = Some []\<rparr>]"
proof -
  from assms(1)
  have n: "generate_answer self (if rewrite then rewrite_query self query else query)
           (build_context search_results 5) (3 / 10) 2000 = None"
    by (simp add: generate_answer_def)
  then have a: "answer_question self query search_results rewrite =
           [45813, 48320, 32, 49373, 49457, 50640, 32, 49892, 54056, 54664, 49845, 45768,
            45796, 46]"
    by (simp add: answer_question_def Let_def generation_failed_def)
  from assms(2-5)
  have g: "generate_response st u temperature top_k use_conversation =
           ([50724, 47448, 44032, 32, 48156, 49373, 54664, 49845, 45768, 45796, 58, 32] @ e,
            [])"
    by (simp add: generate_response_def error_prefix_def)
  from assms(6) g
  have h: "ss_messages (handle_user_input st (Some u) temperature top_k use_conversation) =
           ss_messages st @
             [\<lparr>msg_role = User, msg_content = u, msg_references = None\<rparr>,
              \<lparr>msg_role = Assistant,
               msg_content =
                 [50724, 47448, 44032, 32, 48156, 49373, 54664, 49845, 45768, 45796, 58, 32]
                 @ e,
               msg_references = Some []\<rparr>]"
    by (simp add: handle_user_input_messages)
  from n a g h show ?thesis by simp
qed

theorem generation_failure_message_and_history_witness:
  "answer_question (QASystem all_down_client (ascii ''gpt-4o'')) (ascii ''q'')
     [example_table_result] True =
     [45813, 48320, 32, 49373, 49457, 50640, 32, 49892, 54056, 54664, 49845, 45768,
      45796, 46] \<and>
   generate_response light_session (ascii ''q'') (3 / 10) 5 True =
     ([50724, 47448, 44032, 32, 48156, 49373, 54664, 49845, 45768, 45796, 58, 32] @
      use_history_type_error, []) \<and>
   ss_messages (handle_user_input light_session (Some (ascii ''q'')) (3 / 10) 5 True) =
     [\<lparr>msg_role = User, msg_content = ascii ''q'', msg_references = None\<rparr>,
      \<lparr>msg_role = Assistant,
       msg_content =
         [50724, 47448, 44032, 32, 48156, 49373, 54664, 49845, 45768, 45796, 58, 32] @
         use_history_type_error,
       msg_references = Some []\<rparr>]"
proof -
  let ?self = "QASystem all_down_client (ascii ''gpt-4o'')"
  let ?qa = "light_qa_handle use_history_type_error"
  let ?se = "\<lparr>se_hybrid_search = (\<lambda>query top_k. Returned [example_table_result])\<rparr>"
  have 1: "qa_client ?self
             (answer_request ?self (if True then rewrite_query ?self (ascii ''q'') else ascii ''q'')
                (build_context [example_table_result] 5) (3 / 10) 2000) = ChatRaises"
    by (simp add: QASystem_def all_down_client_def)
  have 2: "ss_qa_system light_session = Some ?qa"
    and 3: "ss_search_engine light_session = Some ?se"
    by (simp_all add: light_session_def)
  have 4: "se_hybrid_search ?se (ascii ''q'') 5 = Returned [example_table_result]"
    by simp
  have 5: "qh_generate_answer ?qa (ascii ''q'') (build_context [example_table_result] 5)
             (3 / 10) True = Raised use_history_type_error"
    by (simp add: light_qa_handle_def)
  have 6: "ascii ''q'' \<noteq> []" by (simp add: ascii_def)
  have e: "ss_messages light_session = []"
    by (simp add: light_session_def)
  note th = generation_failure_message_and_history [OF 1 2 3 4 5 6]
  from th [THEN conjunct2] show ?thesis
    unfolding e by simp
qed

section \<open>Properties of the chunking driver\<close>

lemma table_loop_returns:
  "map f ts = map Returned cs \<Longrightarrow> table_loop f acc ts = Returned (acc @ cs)"
proof (induction ts arbitrary: acc cs)
  case Nil
  then show ?case by simp
next
  case (Cons t ts)
  from Cons.prems obtain c cs' where cs: "cs = c # cs'" and c: "f t = Returned c"
    and rest: "map f ts = map Returned cs'"
    by (cases cs) auto
  from Cons.IH [OF rest, of "acc @ [c]"] c cs show ?case by simp
qed

lemma image_loop_returns:
  "map f is = map Returned cs \<Longrightarrow> image_loop f acc is = Returned (acc @ cs)"
proof (induction "is" arbitrary: acc cs)
  case Nil
  then show ?case by simp
next
  case (Cons i "is")
  from Cons.prems obtain c cs' where cs: "cs = c # cs'" and c: "f i = Returned c"
    and rest: "map f is = map Returned cs'"
    by (cases cs) auto
  from Cons.IH [OF rest, of "acc @ [c]"] c cs show ?case by simp
qed

lemma table_loop_only_returns:
  "table_loop f acc ts = Returned r \<Longrightarrow>
     \<exists>cs. r = acc @ cs \<and> map f ts = map Returned cs"
proof (induction ts arbitrary: acc)
  case Nil
  then show ?case by simp
next
  case (Cons t ts)
  from Cons.prems obtain c where c: "f t = Returned c"
    and r: "table_loop f (acc @ [c]) ts = Returned r"
    by (auto split: outcome.splits)
  from Cons.IH [OF r] obtain cs where "r = (acc @ [c]) @ cs" "map f ts = map Returned cs"
    by blast
  with c have "r = acc @ (c # cs) \<and> map f (t # ts) = map Returned (c # cs)"
    by simp
  then show ?case by blast
qed

lemma image_loop_only_returns:
  "image_loop f acc is = Returned r \<Longrightarrow>
     \<exists>cs. r = acc @ cs \<and> map f is = map Returned cs"
proof (induction "is" arbitrary: acc)
  case Nil
  then show ?case by simp
next
  case (Cons i "is")
  from Cons.prems obtain c where c: "f i = Returned c"
    and r: "image_loop f (acc @ [c]) is = Returned r"
    by (auto split: outcome.splits)
  from Cons.IH [OF r] obtain cs where "r = (acc @ [c]) @ cs" "map f is = map Returned cs"
    by blast
  with c have "r = acc @ (c # cs) \<and> map f (i # is) = map Returned (c # cs)"
    by simp
  then show ?case by blast
qed

text \<open>
  C9: the driver makes exactly one chunk per table record and one per image record,
  whatever the record is: when the chunker's calls return, the table loop yields the
  chunks \<open>make_table_to_chunk\<close> returns for the tables, one each and in order, the image
  loop likewise, and the list handed to the overlap step is the text chunks followed by
  these table chunks and image chunks; the function returns the result of that step.
\<close>

theorem one_chunk_per_table_and_image:
  fixes ChunkingStrategy :: "nat \<Rightarrow> nat \<Rightarrow> ustr \<Rightarrow> ('table, 'image, 'chunk) chunking_strategy"
  defines "chunker \<equiv> ChunkingStrategy 800 100 (ascii ''gpt-4'')"
  assumes "cs_chunk_pages chunker (text_blocks_of (get_list (pr_texts data)))
             (case pr_institution data of None \<Rightarrow> institution | Some c \<Rightarrow> c)
           = Returned text_chunks"
    and "map (cs_make_table_to_chunk chunker) (get_list (pr_tables data))
           = map Returned table_chunks"
    and "map (cs_make_image_to_chunk chunker) (get_list (pr_images data))
           = map Returned image_chunks"
    and "cs_apply_overlap chunker (text_chunks @ table_chunks @ image_chunks)
           = Returned final_chunks"
    and "cs_save_chunks chunker final_chunks (output_file institution) = Returned ()"
  shows "table_loop (cs_make_table_to_chunk chunker) [] (get_list (pr_tables data))
           = Returned table_chunks \<and>
         length table_chunks = length (get_list (pr_tables data)) \<and>
         image_loop (cs_make_image_to_chunk chunker) [] (get_list (pr_images data))
           = Returned image_chunks \<and>
         length image_chunks = length (get_list (pr_images data)) \<and>
         chunk_single_institution ChunkingStrategy (Some data) institution
           = Returned (Some final_chunks)"
proof -
  have t: "table_loop (cs_make_table_to_chunk chunker) [] (get_list (pr_tables data))
             = Returned table_chunks"
    using table_loop_returns [OF assms(3), of "[]"] by simp
  have i: "image_loop (cs_make_image_to_chunk chunker) [] (get_list (pr_images data))
             = Returned image_chunks"
    using image_loop_returns [OF assms(4), of "[]"] by simp
  from assms(3) have lt: "length table_chunks = length (get_list (pr_tables data))"
    by (metis length_map)
  from assms(4) have li: "length image_chunks = length (get_list (pr_images data))"
    by (metis length_map)
  have "chunk_single_institution ChunkingStrategy (Some data) institution
          = Returned (Some final_chunks)"
    using assms(2,5,6) t i
    by (simp add: chunk_single_institution_def Let_def chunker_def)
  with t i lt li show ?thesis by simp
qed

theorem one_chunk_per_table_and_image_witness:
  "length (get_list (pr_tables example_report)) = 2 \<and>
   chunk_single_institution example_chunker (Some example_report) (ascii ''kb'') =
     Returned (Some [(ascii ''table'', ascii ''t1''), (ascii ''table'', replicate 5000 120),
                     (ascii ''image'', ascii ''i1'')])"
proof -
  have e: "example_chunker 800 100 (ascii ''gpt-4'') = example_chunker 0 0 []"
    by (simp add: example_chunker_def)
  have tabs: "get_list (pr_tables example_report) = [ascii ''t1'', replicate 5000 120]"
    and imgs: "get_list (pr_images example_report) = [ascii ''i1'']"
    and txts: "get_list (pr_texts example_report) = []"
    by (simp_all add: example_report_def get_list_def)
  have 1: "cs_chunk_pages (example_chunker 800 100 (ascii ''gpt-4''))
             (text_blocks_of (get_list (pr_texts example_report)))
             (case pr_institution example_report of None \<Rightarrow> ascii ''kb'' | Some c \<Rightarrow> c)
           = Returned []"
    by (simp add: example_chunker_def)
  have 2: "map (cs_make_table_to_chunk (example_chunker 800 100 (ascii ''gpt-4'')))
             (get_list (pr_tables example_report))
           = map Returned [(ascii ''table'', ascii ''t1''), (ascii ''table'', replicate 5000 120)]"
    unfolding tabs by (simp add: example_chunker_def)
  have 3: "map (cs_make_image_to_chunk (example_chunker 800 100 (ascii ''gpt-4'')))
             (get_list (pr_images example_report))
           = map Returned [(ascii ''image'', ascii ''i1'')]"
    unfolding imgs by (simp add: example_chunker_def)
  have 4: "cs_apply_overlap (example_chunker 800 100 (ascii ''gpt-4''))
             ([] @ [(ascii ''table'', ascii ''t1''), (ascii ''table'', replicate 5000 120)] @
              [(ascii ''image'', ascii ''i1'')])
           = Returned [(ascii ''table'', ascii ''t1''), (ascii ''table'', replicate 5000 120),
                       (ascii ''image'', ascii ''i1'')]"
    by (simp add: example_chunker_def)
  have 5: "cs_save_chunks (example_chunker 800 100 (ascii ''gpt-4''))
             [(ascii ''table'', ascii ''t1''), (ascii ''table'', replicate 5000 120),
              (ascii ''image'', ascii ''i1'')] (output_file (ascii ''kb'')) = Returned ()"
    by (simp add: example_chunker_def)
  from one_chunk_per_table_and_image
         [where ChunkingStrategy = example_chunker and data = example_report
            and institution = "ascii ''kb''", OF 1 2 3 4 5]
  have "chunk_single_institution example_chunker (Some example_report) (ascii ''kb'') =
     Returned (Some [(ascii ''table'', ascii ''t1''), (ascii ''table'', replicate 5000 120),
                     (ascii ''image'', ascii ''i1'')])"
    by (rule conjunct2 [THEN conjunct2, THEN conjunct2, THEN conjunct2])
  with tabs show ?thesis by simp
qed

text \<open>
  The other direction: a chunk list returned by the driver always comes from one chunk
  per table record and one per image record.
\<close>

lemma chunk_single_institution_returns_only:
  fixes ChunkingStrategy :: "nat \<Rightarrow> nat \<Rightarrow> ustr \<Rightarrow> ('table, 'image, 'chunk) chunking_strategy"
  defines "chunker \<equiv> ChunkingStrategy 800 100 (ascii ''gpt-4'')"
  assumes "chunk_single_institution ChunkingStrategy (Some data) institution
             = Returned (Some final_chunks)"
  shows "\<exists>text_chunks table_chunks image_chunks.
           map (cs_make_table_to_chunk chunker) (get_list (pr_tables data))
             = map Returned table_chunks \<and>
           map (cs_make_image_to_chunk chunker) (get_list (pr_images data))
             = map Returned image_chunks \<and>
           cs_apply_overlap chunker (text_chunks @ table_chunks @ image_chunks)
             = Returned final_chunks"
proof -
  from assms(2) obtain text_chunks table_chunks image_chunks where
    t: "table_loop (cs_make_table_to_chunk chunker) [] (get_list (pr_tables data))
          = Returned table_chunks"
    and i: "image_loop (cs_make_image_to_chunk chunker) [] (get_list (pr_images data))
          = Returned image_chunks"
    and o: "cs_apply_overlap chunker (text_chunks @ table_chunks @ image_chunks)
          = Returned final_chunks"
    unfolding chunk_single_institution_def Let_def chunker_def
    by (auto split: outcome.splits)
  from table_loop_only_returns [OF t]
  have "map (cs_make_table_to_chunk chunker) (get_list (pr_tables data))
          = map Returned table_chunks"
    by simp
  moreover from image_loop_only_returns [OF i]
  have "map (cs_make_image_to_chunk chunker) (get_list (pr_images data))
          = map Returned image_chunks"
    by simp
  ultimately show ?thesis using o by blast
qed

section \<open>Properties of the rank fuser\<close>

lemma sort_key_unique:
  fixes key :: "'a \<Rightarrow> 'k::linorder"
  assumes "distinct xs" and "distinct ys" and "set xs = set ys" and "inj_on key (set xs)"
  shows "sort_key key xs = sort_key key ys"
proof -
  let ?sx = "sort_key key xs" and ?sy = "sort_key key ys"
  have "sorted (map key ?sx)" "sorted (map key ?sy)"
    by (rule sorted_sort_key)+
  moreover have "distinct (map key ?sx)" "distinct (map key ?sy)"
    using assms by (simp_all add: distinct_map)
  moreover have "set (map key ?sx) = set (map key ?sy)"
    using assms(3) by simp
  ultimately have "map key ?sx = map key ?sy"
    by (simp add: sorted_distinct_set_unique)
  moreover have "inj_on key (set ?sx \<union> set ?sy)"
    using assms(3,4) by simp
  ultimately show ?thesis
    by (simp add: inj_on_map_eq_map)
qed

lemma set_fused_chunk_ids:
  "set (fused_chunk_ids ls) = (\<Union>(name, hits) \<in> set ls. rh_chunk_id ` set hits)"
  by (auto simp: fused_chunk_ids_def)

lemma rrf_score_mset:
  "rrf_score k ls c =
     sum_mset (image_mset (\<lambda>(name, hits). rrf_contribution k hits c) (mset ls))"
  by (simp add: rrf_score_def flip: sum_mset_sum_list)

lemma fused_key_inj:
  "inj_on (\<lambda>f. (- fr_rrf_score f, fr_chunk_id f))
     (set (map (\<lambda>c. \<lparr>fr_chunk_id = c, fr_rrf_score = s c\<rparr>) cs))"
  by (auto simp: inj_on_def)

lemma distinct_fused_candidates:
  "distinct (map (\<lambda>c. \<lparr>fr_chunk_id = c, fr_rrf_score = s c\<rparr>) (fused_chunk_ids ls))"
  by (simp add: distinct_map inj_on_def fused_chunk_ids_def)

lemma map_chunk_id_rank_fuse:
  "set (map fr_chunk_id (rank_fuse k ls)) = set (fused_chunk_ids ls) \<and>
   distinct (map fr_chunk_id (rank_fuse k ls))"
proof -
  let ?cand = "map (\<lambda>c. \<lparr>fr_chunk_id = c, fr_rrf_score = rrf_score k ls c\<rparr>) (fused_chunk_ids ls)"
  have s: "set (rank_fuse k ls) = set ?cand"
    by (simp add: rank_fuse_def)
  have i: "inj_on fr_chunk_id (set ?cand)"
    by (auto simp: inj_on_def)
  have d: "distinct (rank_fuse k ls)"
    unfolding rank_fuse_def using distinct_fused_candidates [of "rrf_score k ls" ls] by simp
  have "set (map fr_chunk_id (rank_fuse k ls)) = fr_chunk_id ` set ?cand"
    using s by simp
  also have "\<dots> = set (fused_chunk_ids ls)"
    by (simp add: image_image)
  finally have "set (map fr_chunk_id (rank_fuse k ls)) = set (fused_chunk_ids ls)" .
  moreover have "distinct (map fr_chunk_id (rank_fuse k ls))"
    using d i s by (simp add: distinct_map)
  ultimately show ?thesis ..
qed

lemma rank_fuse_scores:
  "f \<in> set (rank_fuse k ls) \<Longrightarrow> fr_rrf_score f = rrf_score k ls (fr_chunk_id f)"
  by (auto simp: rank_fuse_def)

lemma rank_fuse_sorted: "sorted_wrt fused_before (rank_fuse k ls)"
proof -
  let ?key = "\<lambda>f::'a fused_result. (- fr_rrf_score f, fr_chunk_id f)"
  let ?cand = "map (\<lambda>c. \<lparr>fr_chunk_id = c, fr_rrf_score = rrf_score k ls c\<rparr>) (fused_chunk_ids ls)"
  have "sorted (map ?key (rank_fuse k ls))"
    unfolding rank_fuse_def by (rule sorted_sort_key)
  moreover have "distinct (map ?key (rank_fuse k ls))"
    unfolding rank_fuse_def
    using distinct_fused_candidates [of "rrf_score k ls" ls]
      fused_key_inj [of "rrf_score k ls" "fused_chunk_ids ls"]
    by (simp add: distinct_map)
  ultimately have "sorted_wrt (<) (map ?key (rank_fuse k ls))"
    by (simp add: strict_sorted_iff)
  then have "sorted_wrt (\<lambda>a b. ?key a < ?key b) (rank_fuse k ls)"
    by (simp only: sorted_wrt_map)
  moreover have "?key a < ?key b \<Longrightarrow> fused_before a b" for a b :: "'a fused_result"
    by (auto simp: fused_before_def)
  ultimately show ?thesis
    by (rule sorted_wrt_mono_rel [rotated]) blast
qed

lemma rank_fuse_permuted:
  assumes m: "mset xs = mset ys"
  shows "rank_fuse k xs = rank_fuse k ys"
proof -
  have sc: "rrf_score k xs = rrf_score k ys"
    by (rule ext) (simp add: rrf_score_mset m)
  from m have "set xs = set ys" by (rule mset_eq_setD)
  then have ids: "set (fused_chunk_ids xs) = set (fused_chunk_ids ys)"
    by (simp add: set_fused_chunk_ids)
  let ?mk = "\<lambda>c. \<lparr>fr_chunk_id = c, fr_rrf_score = rrf_score k ys c\<rparr>"
  have "sort_key (\<lambda>f. (- fr_rrf_score f, fr_chunk_id f)) (map ?mk (fused_chunk_ids xs)) =
        sort_key (\<lambda>f. (- fr_rrf_score f, fr_chunk_id f)) (map ?mk (fused_chunk_ids ys))"
  proof (rule sort_key_unique)
    show "distinct (map ?mk (fused_chunk_ids xs))"
      by (rule distinct_fused_candidates)
    show "distinct (map ?mk (fused_chunk_ids ys))"
      by (rule distinct_fused_candidates)
    show "set (map ?mk (fused_chunk_ids xs)) = set (map ?mk (fused_chunk_ids ys))"
      using ids by simp
    show "inj_on (\<lambda>f. (- fr_rrf_score f, fr_chunk_id f)) (set (map ?mk (fused_chunk_ids xs)))"
      by (rule fused_key_inj)
  qed
  then show ?thesis
    by (simp add: rank_fuse_def sc)
qed

text \<open>
  C1 (against the rank fuser as the specification describes it): the fused output holds
  exactly one result for every chunk that appears in at least one list, the score of
  each result is the sum over the lists of \<open>1 / (k + rank)\<close> with \<open>0\<close> for a list that
  does not contain the chunk, the output is sorted by score descending with ties broken by
  ascending chunk identifier, and \<open>hybrid_search\<close> returns the first \<open>top_k\<close> elements
  of the fused output of the lexical and the semantic list.
\<close>

theorem rank_fuse_scores_and_order:
  "set (map fr_chunk_id (rank_fuse k ranked_lists)) =
     (\<Union>(name, hits) \<in> set ranked_lists. rh_chunk_id ` set hits) \<and>
   distinct (map fr_chunk_id (rank_fuse k ranked_lists)) \<and>
   (\<forall>f \<in> set (rank_fuse k ranked_lists).
      fr_rrf_score f =
        (\<Sum>(name, hits) \<leftarrow> ranked_lists.
           case rank_in_list hits (fr_chunk_id f) of
             None \<Rightarrow> 0
           | Some r \<Rightarrow> 1 / (of_nat k + of_nat r))) \<and>
   sorted_wrt fused_before (rank_fuse k ranked_lists) \<and>
   hybrid_search k keyword_search vector_search query top_k =
     take top_k (rank_fuse k
       [(''lexical'', keyword_search query), (''semantic'', vector_search query)]) \<and>
   (\<forall>f \<in> set (hybrid_search k keyword_search vector_search query top_k).
      fr_rrf_score f =
        rrf_contribution k (keyword_search query) (fr_chunk_id f) +
        rrf_contribution k (vector_search query) (fr_chunk_id f))"
proof -
  have sc: "rrf_score k ls c =
        (\<Sum>(name, hits) \<leftarrow> ls.
           case rank_in_list hits c of None \<Rightarrow> 0 | Some r \<Rightarrow> 1 / (of_nat k + of_nat r))"
    for ls :: "(string \<times> 'a ranked_hit list) list" and c
    by (simp add: rrf_score_def rrf_contribution_def)
  have 1: "set (map fr_chunk_id (rank_fuse k ranked_lists)) =
     (\<Union>(name, hits) \<in> set ranked_lists. rh_chunk_id ` set hits)"
    using map_chunk_id_rank_fuse [of k ranked_lists] set_fused_chunk_ids [of ranked_lists]
    by simp
  have 2: "distinct (map fr_chunk_id (rank_fuse k ranked_lists))"
    using map_chunk_id_rank_fuse [of k ranked_lists] by simp
  have 3: "\<forall>f \<in> set (rank_fuse k ranked_lists).
      fr_rrf_score f =
        (\<Sum>(name, hits) \<leftarrow> ranked_lists.
           case rank_in_list hits (fr_chunk_id f) of
             None \<Rightarrow> 0
           | Some r \<Rightarrow> 1 / (of_nat k + of_nat r))"
    using rank_fuse_scores [of _ k ranked_lists] sc [of ranked_lists] by simp
  have 4: "sorted_wrt fused_before (rank_fuse k ranked_lists)"
    by (rule rank_fuse_sorted)
  have 5: "hybrid_search k keyword_search vector_search query top_k =
     take top_k (rank_fuse k
       [(''lexical'', keyword_search query), (''semantic'', vector_search query)])"
    by (simp add: hybrid_search_def)
  have 6: "\<forall>f \<in> set (hybrid_search k keyword_search vector_search query top_k).
      fr_rrf_score f =
        rrf_contribution k (keyword_search query) (fr_chunk_id f) +
        rrf_contribution k (vector_search query) (fr_chunk_id f)"
  proof
    fix f assume "f \<in> set (hybrid_search k keyword_search vector_search query top_k)"
    then have "f \<in> set (rank_fuse k
       [(''lexical'', keyword_search query), (''semantic'', vector_search query)])"
      unfolding 5 by (rule in_set_takeD)
    then show "fr_rrf_score f =
        rrf_contribution k (keyword_search query) (fr_chunk_id f) +
        rrf_contribution k (vector_search query) (fr_chunk_id f)"
      by (simp add: rank_fuse_scores rrf_score_def)
  qed
  from 1 2 3 4 5 6 show ?thesis by blast
qed

text \<open>
  C2 (against the rank fuser as the specification describes it): the fused output is a
  function of its input, and it does not depend on the order in which the lists are
  supplied: any rearrangement of the lists gives the same output, in the same order, and
  so \<open>hybrid_search\<close> returns the same list when the two sub-searches are exchanged.
\<close>

theorem rank_fuse_order_independent:
  assumes "mset ranked_lists = mset ranked_lists'"
  shows "rank_fuse k ranked_lists = rank_fuse k ranked_lists' \<and>
         hybrid_search k keyword_search vector_search query top_k =
           take top_k (rank_fuse k
             [(''semantic'', vector_search query), (''lexical'', keyword_search query)])"
proof -
  have swap: "mset [(''lexical'', keyword_search query), (''semantic'', vector_search query)] =
        mset [(''semantic'', vector_search query), (''lexical'', keyword_search query)]"
    by simp
  from rank_fuse_permuted [OF assms] rank_fuse_permuted [OF swap] show ?thesis
    by (simp add: hybrid_search_def)
qed

theorem rank_fuse_order_independent_witness:
  "rank_fuse 60 [(''lexical'', example_lexical), (''semantic'', example_semantic)] =
   rank_fuse 60 [(''semantic'', example_semantic), (''lexical'', example_lexical)]"
proof -
  have "mset [(''lexical'', example_lexical), (''semantic'', example_semantic)] =
        mset [(''semantic'', example_semantic), (''lexical'', example_lexical)]"
    by simp
  from rank_fuse_order_independent [OF this] show ?thesis
    by (rule conjunct1)
qed

theorem rank_fuse_scores_and_order_witness:
  "rank_fuse 60 [(''lexical'', example_lexical), (''semantic'', example_semantic)] =
     [\<lparr>fr_chunk_id = 2, fr_rrf_score = 1 / 62 + 1 / 61\<rparr>,
      \<lparr>fr_chunk_id = 1, fr_rrf_score = 1 / 61\<rparr>,
      \<lparr>fr_chunk_id = 3, fr_rrf_score = 1 / 62\<rparr>] \<and>
   sorted_wrt fused_before
     (rank_fuse 60 [(''lexical'', example_lexical), (''semantic'', example_semantic)]) \<and>
   hybrid_search 60 (\<lambda>q. example_lexical) (\<lambda>q. example_semantic) ''price'' 2 =
     [\<lparr>fr_chunk_id = 2, fr_rrf_score = 1 / 62 + 1 / 61\<rparr>,
      \<lparr>fr_chunk_id = 1, fr_rrf_score = 1 / 61\<rparr>]"
proof -
  have e: "rank_fuse 60 [(''lexical'', example_lexical), (''semantic'', example_semantic)] =
     [\<lparr>fr_chunk_id = 2, fr_rrf_score = 1 / 62 + 1 / 61\<rparr>,
      \<lparr>fr_chunk_id = 1, fr_rrf_score = 1 / 61\<rparr>,
      \<lparr>fr_chunk_id = 3, fr_rrf_score = 1 / 62\<rparr>]"
    by (simp add: rank_fuse_def fused_chunk_ids_def example_lexical_def example_semantic_def
        rrf_score_def rrf_contribution_def rank_in_list_def)
  note th = rank_fuse_scores_and_order
    [of 60 "[(''lexical'', example_lexical), (''semantic'', example_semantic)]"
        "\<lambda>q. example_lexical" "\<lambda>q. example_semantic" "''price''" 2]
  from th have s: "sorted_wrt fused_before
     (rank_fuse 60 [(''lexical'', example_lexical), (''semantic'', example_semantic)])"
    by blast
  from th have h: "hybrid_search 60 (\<lambda>q. example_lexical) (\<lambda>q. example_semantic) ''price'' 2 =
     take 2 (rank_fuse 60 [(''lexical'', example_lexical), (''semantic'', example_semantic)])"
    by blast
  from e s h show ?thesis by simp
qed

end
